theory Spec2Isabelle
  imports Complex_Main "HOL-Library.AList"
begin

section \<open>Python values, dictionaries and exceptions\<close>

text \<open>
  The sessions keep their drafts in \<^verbatim>\<open>dict[str, Any]\<close>. A dictionary is an association
  list in insertion order with one entry per key; \<open>AList.update\<close> overwrites in place
  or appends, as assignment to a Python dict does. The values are the shapes that the
  handlers store: \<^verbatim>\<open>None\<close>, strings, numbers (the floats of a line item, idealised as
  rationals), nested dictionaries and lists.
\<close>

datatype val =
    VNone
  | VStr string
  | VNum rat
  | VDict "(string \<times> val) list"
  | VList "val list"

type_synonym pydict = "(string \<times> val) list"

type_synonym time = int
  \<comment> \<open>a \<^verbatim>\<open>datetime\<close> in microseconds; one clock reading per call\<close>

datatype py_error =
    ValueError string
  | KeyError string
  | TypeError
  | AttributeError
  | IndexError
  | StepValidationError string string
      \<comment> \<open>\<^verbatim>\<open>StepValidationError(field, message)\<close>\<close>

text \<open>Truth value of an object, as \<^verbatim>\<open>if x:\<close> and \<^verbatim>\<open>bool(x)\<close> compute it.\<close>

fun truthy :: "val \<Rightarrow> bool" where
  "truthy VNone = False"
| "truthy (VStr s) = (s \<noteq> [])"
| "truthy (VNum n) = (n \<noteq> 0)"
| "truthy (VDict d) = (d \<noteq> [])"
| "truthy (VList l) = (l \<noteq> [])"

text \<open>\<^verbatim>\<open>d.get(k)\<close>: the value, or \<^verbatim>\<open>None\<close> for a missing key.\<close>

definition dict_get :: "pydict \<Rightarrow> string \<Rightarrow> val" where
  "dict_get d k = (case map_of d k of None \<Rightarrow> VNone | Some v \<Rightarrow> v)"

text \<open>\<^verbatim>\<open>d.update(e)\<close>: every entry of \<open>e\<close> is assigned, in order.\<close>

definition dict_update :: "('k \<times> 'v) list \<Rightarrow> ('k \<times> 'v) list \<Rightarrow> ('k \<times> 'v) list" where
  "dict_update d e = fold (\<lambda>(k, v). AList.update k v) e d"

text \<open>\<^verbatim>\<open>len(x)\<close>; \<^verbatim>\<open>None\<close> and numbers have no length.\<close>

fun py_len :: "val \<Rightarrow> py_error + nat" where
  "py_len (VStr s) = Inr (length s)"
| "py_len (VDict d) = Inr (length d)"
| "py_len (VList l) = Inr (length l)"
| "py_len VNone = Inl TypeError"
| "py_len (VNum n) = Inl TypeError"

text \<open>\<^verbatim>\<open>xs.index(x)\<close>: the first position of \<open>x\<close>; \<open>None\<close> stands for the ValueError.\<close>

fun index_of :: "'a list \<Rightarrow> 'a \<Rightarrow> nat option" where
  "index_of [] x = None"
| "index_of (y # ys) x = (if y = x then Some 0 else map_option Suc (index_of ys x))"


section \<open>BaseWorkflowSession (workflow\_base/base\_session.py)\<close>

record base_session =
  session_id :: string
  current_step :: string
  completed_steps :: "string list"
  workflow_data :: pydict
  step_errors :: "(string \<times> string) list"
  created_at :: time
  updated_at :: time

text \<open>
  The abstract methods \<^verbatim>\<open>get_workflow_steps\<close> and \<^verbatim>\<open>get_initial_step\<close> are parameters
  of the base-class operations; each subclass instantiates them below.
\<close>

definition advance_step ::
  "string list \<Rightarrow> time \<Rightarrow> 'a base_session_scheme
     \<Rightarrow> py_error + (string option \<times> 'a base_session_scheme)" where
  "advance_step steps now s =
     (case index_of steps (current_step s) of
        None \<Rightarrow> Inl (ValueError ''not in list'')
      | Some current_idx \<Rightarrow>
          if int current_idx < int (length steps) - 1
          then Inr (Some (steps ! (current_idx + 1)),
                    s\<lparr>current_step := steps ! (current_idx + 1), updated_at := now\<rparr>)
          else Inr (None, s))"

definition go_to_step ::
  "string list \<Rightarrow> string \<Rightarrow> time \<Rightarrow> 'a base_session_scheme
     \<Rightarrow> bool \<times> 'a base_session_scheme" where
  "go_to_step steps step now s =
     (case index_of steps step of
        None \<Rightarrow> (False, s)
      | Some target_idx \<Rightarrow>
          if target_idx \<le> length (completed_steps s)
          then (True, s\<lparr>current_step := step, updated_at := now\<rparr>)
          else (False, s))"

definition mark_step_complete ::
  "string \<Rightarrow> pydict \<Rightarrow> time \<Rightarrow> 'a base_session_scheme \<Rightarrow> 'a base_session_scheme" where
  "mark_step_complete step data now s =
     s\<lparr>completed_steps :=
         (if step \<notin> set (completed_steps s) then completed_steps s @ [step]
          else completed_steps s),
       workflow_data := dict_update (workflow_data s) data,
       updated_at := now,
       step_errors := AList.delete step (step_errors s)\<rparr>"


section \<open>InvoiceWorkflowSession (invoice\_workflow/session\_store.py)\<close>

text \<open>
  The structured results of the voice steps. \<^verbatim>\<open>hasattr(parsed_result, "contact_name")\<close>
  and its siblings are tests on the constructor. A due date is carried as its ISO
  rendering; a \<^verbatim>\<open>date\<close> object is never false.
\<close>

datatype invoice_parsed =
    InvoiceContactNameStep string bool
      \<comment> \<open>contact\_name, is\_organization\<close>
  | InvoiceDueDateStep string "int option"
      \<comment> \<open>due\_date, days\_from\_now\<close>
  | InvoiceLineItemStep string rat rat string string
      \<comment> \<open>description, quantity, unit\_price, account\_code, vat\_rate\<close>

record invoice_session = base_session +
  invoice_data :: pydict
  line_item_count :: nat
  max_line_items :: nat
  has_pending_item :: bool
  transcripts :: "(string \<times> string) list"
  parsed_results :: "(string \<times> invoice_parsed) list"
  errors :: "(string \<times> string) list"

definition invoice_workflow_steps :: "string list" where
  "invoice_workflow_steps =
     [''welcome'', ''contact_name'', ''due_date'', ''line_item'', ''review'',
      ''final_submit'', ''complete'']"

definition invoice_initial_step :: string where
  "invoice_initial_step = ''welcome''"

definition new_invoice_session :: "string \<Rightarrow> time \<Rightarrow> invoice_session" where
  "new_invoice_session sid now =
     \<lparr>session_id = sid,
      current_step = invoice_initial_step,
      completed_steps = [],
      workflow_data = [],
      step_errors = [],
      created_at = now,
      updated_at = now,
      invoice_data =
        [(''contact_name'', VNone), (''due_date'', VNone), (''line_items'', VList []),
         (''current_line_item'', VNone)],
      line_item_count = 0,
      max_line_items = 10,
      has_pending_item = False,
      transcripts = [],
      parsed_results = [],
      errors = []\<rparr>"

definition invoice_advance_step ::
  "time \<Rightarrow> invoice_session \<Rightarrow> py_error + (string option \<times> invoice_session)" where
  "invoice_advance_step now s =
     (if current_step s = ''line_item'' \<and> has_pending_item s
      then Inr (Some (current_step s), s)
      else advance_step invoice_workflow_steps now s)"


section \<open>ContactWorkflowSession (contact\_workflow/session\_store.py)\<close>

datatype contact_parsed =
    ContactNameStep string bool
      \<comment> \<open>name, is\_organization\<close>
  | ContactEmailStep string
      \<comment> \<open>email\_address\<close>
  | ContactAddressStep string string string string
      \<comment> \<open>address\_line1, city, postal\_code, country\<close>
  | ContactConfirmation bool "string option"
      \<comment> \<open>confirmed, corrections\_needed\<close>

record contact_session = base_session +
  contact_data :: pydict
  c_transcripts :: "(string \<times> string) list"
  c_parsed_results :: "(string \<times> contact_parsed) list"
  c_errors :: "(string \<times> string) list"

definition contact_workflow_steps :: "string list" where
  "contact_workflow_steps =
     [''welcome'', ''name'', ''email'', ''address'', ''review'', ''final_submit'',
      ''complete'']"

definition new_contact_session :: "string \<Rightarrow> time \<Rightarrow> contact_session" where
  "new_contact_session sid now =
     \<lparr>session_id = sid,
      current_step = ''welcome'',
      completed_steps = [],
      workflow_data = [],
      step_errors = [],
      created_at = now,
      updated_at = now,
      contact_data = [(''name'', VNone), (''email_address'', VNone), (''address'', VNone)],
      c_transcripts = [],
      c_parsed_results = [],
      c_errors = []\<rparr>"

definition contact_advance_step ::
  "time \<Rightarrow> contact_session \<Rightarrow> py_error + (string option \<times> contact_session)" where
  "contact_advance_step now s = advance_step contact_workflow_steps now s"

fun parse_contact_data :: "string \<Rightarrow> contact_parsed \<Rightarrow> pydict" where
  "parse_contact_data step (ContactNameStep name is_org) =
     (if step = ''name'' then [(''name'', VStr name)] else [])"
| "parse_contact_data step (ContactEmailStep email_address) =
     (if step = ''email'' then [(''email_address'', VStr email_address)] else [])"
| "parse_contact_data step (ContactAddressStep address_line1 city postal_code country) =
     (if step = ''address''
      then [(''address'',
             VDict [(''AddressLine1'', VStr address_line1), (''City'', VStr city),
                    (''PostalCode'', VStr postal_code), (''Country'', VStr country)])]
      else [])"
| "parse_contact_data step (ContactConfirmation confirmed corrections) = []"

definition contact_store_step_result ::
  "string \<Rightarrow> contact_parsed \<Rightarrow> string \<Rightarrow> time \<Rightarrow> contact_session \<Rightarrow> contact_session" where
  "contact_store_step_result step result transcript now s =
     (let s1 = s\<lparr>c_transcripts := AList.update step transcript (c_transcripts s),
                  c_parsed_results := AList.update step result (c_parsed_results s)\<rparr>;
          parsed_data = parse_contact_data step result;
          s2 = s1\<lparr>contact_data := dict_update (contact_data s1) parsed_data,
                   workflow_data := dict_update (workflow_data s1) parsed_data\<rparr>
      in if parsed_data \<noteq> [] then mark_step_complete step parsed_data now s2 else s2)"


section \<open>Operations of the invoice session\<close>

text \<open>\<^verbatim>\<open>d[k]\<close>: a missing key raises KeyError.\<close>

definition dict_item :: "pydict \<Rightarrow> string \<Rightarrow> py_error + val" where
  "dict_item d k = (case map_of d k of None \<Rightarrow> Inl (KeyError k) | Some v \<Rightarrow> Inr v)"

text \<open>Decimal rendering of a number inside an f-string.\<close>

fun str_nat :: "nat \<Rightarrow> string" where
  "str_nat n =
     (if n < 10 then [''0123456789'' ! n]
      else str_nat (n div 10) @ [''0123456789'' ! (n mod 10)])"

declare str_nat.simps [simp del]

fun parse_invoice_data :: "string \<Rightarrow> invoice_parsed \<Rightarrow> pydict" where
  "parse_invoice_data step (InvoiceContactNameStep contact_name is_org) =
     (if step = ''contact_name'' then [(''contact_name'', VStr contact_name)] else [])"
| "parse_invoice_data step (InvoiceDueDateStep due_date days_from_now) =
     (if step = ''due_date'' then [(''due_date'', VStr due_date)] else [])"
| "parse_invoice_data step (InvoiceLineItemStep description quantity unit_price account_code
       vat_rate) =
     (if step = ''line_item''
      then [(''current_line_item'',
             VDict [(''description'', VStr description), (''quantity'', VNum quantity),
                    (''unit_price'', VNum unit_price), (''account_code'', VStr account_code),
                    (''vat_rate'', VStr vat_rate)])]
      else [])"

text \<open>
  \<^verbatim>\<open>add_line_item\<close> raises before it mutates anything, so a failure leaves the session
  as it was. \<^verbatim>\<open>append\<close> exists on lists only; the entry can hold something else after a
  raw field edit (see \<^verbatim>\<open>update_field\<close>).
\<close>

definition add_line_item :: "val \<Rightarrow> invoice_session \<Rightarrow> py_error + invoice_session" where
  "add_line_item item_data s =
     (case dict_item (invoice_data s) ''line_items'' of
        Inl e \<Rightarrow> Inl e
      | Inr v \<Rightarrow>
          (case py_len v of
             Inl e \<Rightarrow> Inl e
           | Inr n \<Rightarrow>
               if n \<ge> max_line_items s
               then Inl (ValueError (''Maximum '' @ str_nat (max_line_items s)
                                      @ '' line items allowed''))
               else (case v of
                       VList l \<Rightarrow>
                         Inr (s\<lparr>invoice_data :=
                                  AList.update ''current_line_item'' VNone
                                    (AList.update ''line_items'' (VList (l @ [item_data]))
                                       (invoice_data s)),
                                line_item_count := length (l @ [item_data]),
                                has_pending_item := False\<rparr>)
                     | _ \<Rightarrow> Inl AttributeError)))"

definition clear_current_item :: "invoice_session \<Rightarrow> invoice_session" where
  "clear_current_item s =
     s\<lparr>invoice_data := AList.update ''current_line_item'' VNone (invoice_data s),
       has_pending_item := False\<rparr>"

text \<open>
  \<^verbatim>\<open>workflow_data\<close> receives the same parsed entries as \<^verbatim>\<open>invoice_data\<close>; in the source
  the two dictionaries then share the item object, here each holds its value.
\<close>

definition invoice_store_step_result ::
  "string \<Rightarrow> invoice_parsed \<Rightarrow> string \<Rightarrow> time \<Rightarrow> invoice_session \<Rightarrow> invoice_session" where
  "invoice_store_step_result step result transcript now s =
     (let s1 = s\<lparr>transcripts := AList.update step transcript (transcripts s),
                  parsed_results := AList.update step result (parsed_results s)\<rparr>;
          parsed_data = parse_invoice_data step result;
          s2 = s1\<lparr>invoice_data := dict_update (invoice_data s1) parsed_data,
                   workflow_data := dict_update (workflow_data s1) parsed_data\<rparr>;
          s3 = (if step = ''line_item'' \<and> truthy (dict_get parsed_data ''current_line_item'')
                then s2\<lparr>has_pending_item := True\<rparr> else s2)
      in if parsed_data \<noteq> [] \<and> step \<noteq> ''line_item''
         then mark_step_complete step parsed_data now s3 else s3)"

definition reset :: "time \<Rightarrow> invoice_session \<Rightarrow> invoice_session" where
  "reset now s =
     s\<lparr>current_step := invoice_initial_step,
       completed_steps := [],
       workflow_data := [],
       step_errors := [],
       invoice_data :=
         [(''contact_name'', VNone), (''due_date'', VNone), (''line_items'', VList []),
          (''current_line_item'', VNone)],
       line_item_count := 0,
       transcripts := [],
       parsed_results := [],
       errors := [],
       updated_at := now\<rparr>"


subsection \<open>Editing a single field (update\_field)\<close>

text \<open>
  The conversions \<^verbatim>\<open>int(s)\<close> and \<^verbatim>\<open>float(s)\<close> (\<open>None\<close> for their ValueError) and the
  cleaning of a price (the pound sign removed, then \<^verbatim>\<open>strip()\<close>) are parameters.
\<close>

record parsers =
  py_int :: "string \<Rightarrow> int option"
  py_float :: "string \<Rightarrow> rat option"
  clean_price :: "string \<Rightarrow> string"

text \<open>\<^verbatim>\<open>s.split(c)\<close> and \<^verbatim>\<open>sep.join(parts)\<close>.\<close>

fun split_on :: "char \<Rightarrow> string \<Rightarrow> string list" where
  "split_on c [] = [[]]"
| "split_on c (x # xs) =
     (if x = c then [] # split_on c xs
      else (case split_on c xs of w # ws \<Rightarrow> (x # w) # ws | [] \<Rightarrow> [[x]]))"

fun join_with :: "string \<Rightarrow> string list \<Rightarrow> string" where
  "join_with sep [] = []"
| "join_with sep [w] = w"
| "join_with sep (w # ws) = w @ sep @ join_with sep ws"

text \<open>
  The position that index \<open>i\<close> denotes in a sequence of length \<open>n\<close>: negative indices
  count from the end; \<open>None\<close> is the IndexError.
\<close>

definition py_index :: "nat \<Rightarrow> int \<Rightarrow> nat option" where
  "py_index n i =
     (if 0 \<le> i \<and> i < int n then Some (nat i)
      else if i < 0 \<and> - int n \<le> i then Some (nat (int n + i))
      else None)"

text \<open>\<^verbatim>\<open>self.invoice_data["line_items"][idx][field] = v\<close>\<close>

definition assign_item_field ::
  "int \<Rightarrow> string \<Rightarrow> val \<Rightarrow> invoice_session \<Rightarrow> py_error + invoice_session" where
  "assign_item_field idx field v s =
     (case dict_item (invoice_data s) ''line_items'' of
        Inl e \<Rightarrow> Inl e
      | Inr (VList l) \<Rightarrow>
          (case py_index (length l) idx of
             None \<Rightarrow> Inl IndexError
           | Some j \<Rightarrow>
               (case l ! j of
                  VDict d \<Rightarrow>
                    Inr (s\<lparr>invoice_data :=
                             AList.update ''line_items''
                               (VList (l[j := VDict (AList.update field v d)]))
                               (invoice_data s)\<rparr>)
                | _ \<Rightarrow> Inl TypeError))
      | Inr (VStr str) \<Rightarrow>
          (case py_index (length str) idx of
             None \<Rightarrow> Inl IndexError
           | Some j \<Rightarrow> Inl TypeError)
      | Inr (VDict d) \<Rightarrow> Inl (KeyError ''idx'')
      | Inr _ \<Rightarrow> Inl TypeError)"

text \<open>The body of the \<^verbatim>\<open>try\<close> block once \<open>idx\<close> and \<open>field\<close> are known.\<close>

definition set_line_item_field ::
  "parsers \<Rightarrow> int \<Rightarrow> string \<Rightarrow> string \<Rightarrow> invoice_session \<Rightarrow> py_error + invoice_session" where
  "set_line_item_field P idx field field_value s =
     (case py_len (case map_of (invoice_data s) ''line_items'' of
                     None \<Rightarrow> VList [] | Some v \<Rightarrow> v) of
        Inl e \<Rightarrow> Inl e
      | Inr n \<Rightarrow>
          if idx < int n
          then (case (if field = ''quantity'' then map_option VNum (py_float P field_value)
                      else if field = ''unit_price''
                      then map_option VNum (py_float P (clean_price P field_value))
                      else Some (VStr field_value)) of
                  None \<Rightarrow> Inl (ValueError ''could not convert string to float'')
                | Some v \<Rightarrow> assign_item_field idx field v s)
          else Inr s)"

definition address_field_map :: "string \<Rightarrow> string" where
  "address_field_map field_name =
     (if field_name = ''address_line1'' then ''AddressLine1''
      else if field_name = ''city'' then ''City''
      else if field_name = ''postal_code'' then ''PostalCode''
      else if field_name = ''country'' then ''Country''
      else field_name)"

text \<open>\<^verbatim>\<open>s.startswith(p)\<close>\<close>

definition startswith :: "string \<Rightarrow> string \<Rightarrow> bool" where
  "startswith s p \<longleftrightarrow> take (length p) s = p"

text \<open>
  The branch for \<^verbatim>\<open>line_item_<idx>_<field>\<close> names. ValueError and IndexError are caught
  and logged there; any other exception leaves \<^verbatim>\<open>update_field\<close>.
\<close>

definition update_line_item_field ::
  "parsers \<Rightarrow> string \<Rightarrow> string \<Rightarrow> invoice_session \<Rightarrow> py_error + invoice_session" where
  "update_line_item_field P field_name field_value s =
     (let parts = split_on CHR ''_'' field_name
      in if length parts \<ge> 4
         then (case py_int P (parts ! 2) of
                 None \<Rightarrow> Inr s
               | Some idx \<Rightarrow>
                   (case set_line_item_field P idx (join_with ''_'' (drop 3 parts))
                           field_value s of
                      Inl (ValueError m) \<Rightarrow> Inr s
                    | Inl IndexError \<Rightarrow> Inr s
                    | Inl e \<Rightarrow> Inl e
                    | Inr s' \<Rightarrow> Inr s'))
         else Inr s)"

text \<open>The branch for the address fields kept for the contact workflow.\<close>

definition update_address_field ::
  "string \<Rightarrow> string \<Rightarrow> invoice_session \<Rightarrow> py_error + invoice_session" where
  "update_address_field field_name field_value s =
     (let s1 = (if dict_get (invoice_data s) ''address'' = VNone
                then s\<lparr>invoice_data := AList.update ''address'' (VDict []) (invoice_data s)\<rparr>
                else s)
      in case dict_item (invoice_data s1) ''address'' of
           Inr (VDict a) \<Rightarrow>
             Inr (s1\<lparr>invoice_data :=
                       AList.update ''address''
                         (VDict (AList.update (address_field_map field_name)
                                   (VStr field_value) a))
                         (invoice_data s1)\<rparr>)
         | Inr _ \<Rightarrow> Inl TypeError
         | Inl e \<Rightarrow> Inl e)"

text \<open>
  No branch mutates the session before it can raise, and \<^verbatim>\<open>updated_at\<close> is touched only
  when the method reaches its end.
\<close>

definition update_field ::
  "parsers \<Rightarrow> string \<Rightarrow> string \<Rightarrow> time \<Rightarrow> invoice_session \<Rightarrow> py_error + invoice_session" where
  "update_field P field_name field_value now s =
     (case
        (if startswith field_name ''line_item_''
         then update_line_item_field P field_name field_value s
         else if field_name \<in> set [''contact_name'', ''contact_id'', ''due_date'']
         then Inr (s\<lparr>invoice_data :=
                       AList.update field_name (VStr field_value) (invoice_data s)\<rparr>)
         else if field_name \<in> set [''address_line1'', ''city'', ''postal_code'', ''country'']
         then update_address_field field_name field_value s
         else Inr (s\<lparr>invoice_data :=
                       AList.update field_name (VStr field_value) (invoice_data s)\<rparr>))
      of Inl e \<Rightarrow> Inl e
       | Inr s' \<Rightarrow> Inr (s'\<lparr>updated_at := now\<rparr>))"


section \<open>Route handlers of the invoice workflow\<close>

text \<open>
  Each handler is modelled from the point where it holds the session: it returns what
  the caller sees and the session as the handler leaves it. An exception is caught by the
  handler's \<^verbatim>\<open>except Exception\<close> and answered with status 500; what was mutated before
  the exception stays mutated.
\<close>

datatype response =
    Done
  | LineItemDecision
  | Rejected string nat
      \<comment> \<open>error code and HTTP status\<close>

text \<open>step\_routes.py\<close>

definition process_invoice_step_ok ::
  "string \<Rightarrow> invoice_parsed \<Rightarrow> string \<Rightarrow> time \<Rightarrow> invoice_session
     \<Rightarrow> response \<times> invoice_session" where
  \<comment> \<open>the handler after \<^verbatim>\<open>process_voice_step\<close> has returned \<open>(transcript, parsed_result)\<close>\<close>
  "process_invoice_step_ok step parsed_result transcript now s =
     (Done, invoice_store_step_result step parsed_result transcript now s)"

definition confirm_step ::
  "string option \<Rightarrow> time \<Rightarrow> invoice_session \<Rightarrow> response \<times> invoice_session" where
  "confirm_step step now s =
     (let current = (case step of
                       None \<Rightarrow> current_step s
                     | Some st \<Rightarrow> if st \<noteq> [] then st else current_step s)
      in if current = ''line_item'' \<and> has_pending_item s then (LineItemDecision, s)
         else let s1 = (if current \<noteq> ''line_item'' \<and> current \<notin> set (completed_steps s)
                        then s\<lparr>completed_steps := completed_steps s @ [current]\<rparr>
                        else s)
              in case invoice_advance_step now s1 of
                   Inl e \<Rightarrow> (Rejected ''CONFIRMATION_ERROR'' 500, s1)
                 | Inr (next_step, s2) \<Rightarrow> (Done, s2))"

definition confirm_line_item :: "bool \<Rightarrow> invoice_session \<Rightarrow> response \<times> invoice_session" where
  \<comment> \<open>the flag is \<^verbatim>\<open>add_another.lower() == "true"\<close>\<close>
  "confirm_line_item add_another s =
     (let current_item = dict_get (invoice_data s) ''current_line_item''
      in case (if truthy current_item then add_line_item current_item s else Inr s) of
           Inl e \<Rightarrow> (Rejected ''LINE_ITEM_ERROR'' 500, s)
         | Inr s1 \<Rightarrow>
             if add_another
             then (Done, s1\<lparr>current_step := ''line_item'', has_pending_item := False\<rparr>)
             else (Done,
                   s1\<lparr>completed_steps :=
                         (if ''line_item'' \<notin> set (completed_steps s1)
                          then completed_steps s1 @ [''line_item'']
                          else completed_steps s1),
                       current_step := ''review'',
                       has_pending_item := False\<rparr>))"

definition update_invoice_field ::
  "parsers \<Rightarrow> string \<Rightarrow> string \<Rightarrow> time \<Rightarrow> invoice_session \<Rightarrow> response \<times> invoice_session" where
  "update_invoice_field P field_name field_value now s =
     (case update_field P field_name field_value now s of
        Inl e \<Rightarrow> (Rejected ''UPDATE_ERROR'' 500, s)
      | Inr s' \<Rightarrow> (Done, s'))"

definition add_another_item :: "invoice_session \<Rightarrow> response \<times> invoice_session" where
  "add_another_item s =
     (let current_item = dict_get (invoice_data s) ''current_line_item''
      in case (if truthy current_item then add_line_item current_item s else Inr s) of
           Inl e \<Rightarrow> (Rejected ''ADD_ITEM_ERROR'' 500, s)
         | Inr s1 \<Rightarrow> (Done, s1\<lparr>current_step := ''line_item''\<rparr>))"

definition proceed_to_review :: "invoice_session \<Rightarrow> response \<times> invoice_session" where
  "proceed_to_review s =
     (let current_item = dict_get (invoice_data s) ''current_line_item''
      in case (if truthy current_item then add_line_item current_item s else Inr s) of
           Inl e \<Rightarrow> (Rejected ''REVIEW_ERROR'' 500, s)
         | Inr s1 \<Rightarrow>
             if \<not> truthy (dict_get (invoice_data s1) ''line_items'')
             then (Rejected ''NO_LINE_ITEMS'' 400, s1)
             else (Done,
                   s1\<lparr>completed_steps :=
                         (if ''line_item'' \<notin> set (completed_steps s1)
                          then completed_steps s1 @ [''line_item'']
                          else completed_steps s1),
                       current_step := ''review''\<rparr>))"

definition clear_line_item :: "int \<Rightarrow> invoice_session \<Rightarrow> response \<times> invoice_session" where
  "clear_line_item item_index s =
     (case py_len (case map_of (invoice_data s) ''line_items'' of
                     None \<Rightarrow> VList [] | Some v \<Rightarrow> v) of
        Inl e \<Rightarrow> (Rejected ''CLEAR_ITEM_ERROR'' 500, s)
      | Inr n \<Rightarrow>
          if 0 \<le> item_index \<and> item_index < int n
          then (case dict_item (invoice_data s) ''line_items'' of
                  Inr (VList l) \<Rightarrow>
                    (Done,
                     s\<lparr>invoice_data :=
                         AList.update ''line_items''
                           (VList (take (nat item_index) l @ drop (Suc (nat item_index)) l))
                           (invoice_data s),
                       line_item_count := length l - 1\<rparr>)
                | _ \<Rightarrow> (Rejected ''CLEAR_ITEM_ERROR'' 500, s))
          else (Done, s))"

definition clear_all_line_items :: "invoice_session \<Rightarrow> response \<times> invoice_session" where
  "clear_all_line_items s =
     (Done,
      s\<lparr>invoice_data :=
          AList.update ''current_line_item'' VNone
            (AList.update ''line_items'' (VList []) (invoice_data s)),
        line_item_count := 0,
        has_pending_item := False\<rparr>)"

text \<open>workflow\_routes.py\<close>

definition new_invoice_workflow ::
  "string option \<Rightarrow> invoice_session \<Rightarrow> response \<times> invoice_session" where
  \<comment> \<open>the branch for an existing \<^verbatim>\<open>session_id\<close>, with the optional \<^verbatim>\<open>step\<close> query parameter\<close>
  "new_invoice_workflow step s =
     (case step of
        None \<Rightarrow> (Done, s)
      | Some st \<Rightarrow>
          if st \<noteq> [] \<and> (st \<in> set (completed_steps s) \<or> st = current_step s)
          then (Done, s\<lparr>current_step := st\<rparr>)
          else (Done, s))"

definition start_invoice_workflow :: "time \<Rightarrow> invoice_session \<Rightarrow> response \<times> invoice_session" where
  "start_invoice_workflow now s =
     (if current_step s = ''welcome''
      then (case invoice_advance_step now s of
              Inl e \<Rightarrow> (Rejected ''ERROR'' 500, s)
            | Inr (next_step, s') \<Rightarrow> (Done, s'))
      else (Done, s))"

definition go_to_step_route :: "string \<Rightarrow> invoice_session \<Rightarrow> response \<times> invoice_session" where
  "go_to_step_route step s =
     (if step \<notin> set invoice_workflow_steps then (Rejected ''INVALID_STEP'' 400, s)
      else let can_navigate =
                 (if step = ''line_item'' \<and> truthy (dict_get (invoice_data s) ''line_items'')
                  then True
                  else if step \<in> set (completed_steps s) \<or> step = current_step s then True
                  else False)
           in if can_navigate then (Done, s\<lparr>current_step := step\<rparr>)
              else (Rejected ''STEP_NOT_ACCESSIBLE'' 400, s))"

definition reset_workflow :: "time \<Rightarrow> invoice_session \<Rightarrow> response \<times> invoice_session" where
  "reset_workflow now s = (Done, reset now s)"

definition wf_confirm_line_item :: "invoice_session \<Rightarrow> response \<times> invoice_session" where
  "wf_confirm_line_item s =
     (let current_item = dict_get (invoice_data s) ''current_line_item''
      in case (if truthy current_item then add_line_item current_item s else Inr s) of
           Inl e \<Rightarrow> (Rejected ''ERROR'' 500, s)
         | Inr s1 \<Rightarrow> (Done, s1\<lparr>current_step := ''add_or_review''\<rparr>))"

definition wf_add_another_item :: "invoice_session \<Rightarrow> response \<times> invoice_session" where
  "wf_add_another_item s =
     (let current_item = dict_get (invoice_data s) ''current_line_item''
      in case (if truthy current_item then add_line_item current_item s else Inr s) of
           Inl e \<Rightarrow> (Rejected ''ERROR'' 500, s)
         | Inr s1 \<Rightarrow> (Done, s1\<lparr>current_step := ''line_item''\<rparr>))"

definition wf_proceed_to_review :: "invoice_session \<Rightarrow> response \<times> invoice_session" where
  "wf_proceed_to_review s =
     (let current_item = dict_get (invoice_data s) ''current_line_item''
      in case (if truthy current_item then add_line_item current_item s else Inr s) of
           Inl e \<Rightarrow> (Rejected ''ERROR'' 500, s)
         | Inr s1 \<Rightarrow>
             (Done,
              s1\<lparr>current_step := ''review'',
                  completed_steps :=
                    (if ''line_item_confirm'' \<notin> set (completed_steps s1)
                     then completed_steps s1 @ [''line_item_confirm'']
                     else completed_steps s1)\<rparr>))"


text \<open>submission\_routes.py\<close>

definition to_invoice_create :: "invoice_session \<Rightarrow> py_error + bool" where
  \<comment> \<open>whether \<^verbatim>\<open>to_invoice_create()\<close> returns a dictionary rather than \<^verbatim>\<open>None\<close>\<close>
  "to_invoice_create s =
     (case dict_item (invoice_data s) ''contact_name'' of
        Inl e \<Rightarrow> Inl e
      | Inr contact_name \<Rightarrow>
          (case dict_item (invoice_data s) ''due_date'' of
             Inl e \<Rightarrow> Inl e
           | Inr due_date \<Rightarrow>
               (case dict_item (invoice_data s) ''line_items'' of
                  Inl e \<Rightarrow> Inl e
                | Inr line_items \<Rightarrow>
                    (case py_len line_items of
                       Inl e \<Rightarrow> Inl e
                     | Inr n \<Rightarrow> Inr (truthy contact_name \<and> truthy due_date \<and> n > 0)))))"

definition proceed_to_submit :: "invoice_session \<Rightarrow> response \<times> invoice_session" where
  "proceed_to_submit s =
     (case to_invoice_create s of
        Inl e \<Rightarrow> (Rejected ''ERROR'' 500, s)
      | Inr ok \<Rightarrow>
          if \<not> ok then (Rejected ''MISSING_DATA'' 400, s)
          else (Done,
                s\<lparr>completed_steps :=
                     (if ''review'' \<notin> set (completed_steps s)
                      then completed_steps s @ [''review''] else completed_steps s),
                  current_step := ''final_submit''\<rparr>))"

definition submit_to_xero :: "bool \<Rightarrow> invoice_session \<Rightarrow> response \<times> invoice_session" where
  \<comment> \<open>the flag says whether the accounting service created the invoice\<close>
  "submit_to_xero created s =
     (if created then (Done, s\<lparr>current_step := ''complete''\<rparr>)
      else (Rejected ''SUBMISSION_ERROR'' 500, s))"

definition complete_invoice_workflow :: "invoice_session \<Rightarrow> response \<times> invoice_session" where
  "complete_invoice_workflow s = (Done, s\<lparr>current_step := ''complete''\<rparr>)"


text \<open>contact\_workflow/routes/workflow\_routes.py: navigation to a step\<close>

definition contact_go_to_step_route ::
  "string \<Rightarrow> contact_session \<Rightarrow> response \<times> contact_session" where
  "contact_go_to_step_route step s =
     (if step \<notin> set contact_workflow_steps then (Rejected ''INVALID_STEP'' 400, s)
      else if step \<in> set (completed_steps s) \<or> step = current_step s
      then (Done, s\<lparr>current_step := step\<rparr>)
      else (Rejected ''STEP_NOT_ACCESSIBLE'' 400, s))"


section \<open>Sequences of requests on one session\<close>

datatype request =
    Step string invoice_parsed string
  | ConfirmStep "string option"
  | ConfirmLineItem bool
  | UpdateField string string
  | AddAnotherItem
  | ProceedToReview
  | ClearLineItem int
  | ClearAllLineItems
  | NewWorkflow "string option"
  | Start
  | GoToStep string
  | Reset
  | WfConfirmLineItem
  | WfAddAnotherItem
  | WfProceedToReview
  | ProceedToSubmit
  | SubmitToXero bool
  | Complete

fun handle ::
  "parsers \<Rightarrow> time \<Rightarrow> request \<Rightarrow> invoice_session \<Rightarrow> response \<times> invoice_session" where
  "handle P now (Step step parsed_result transcript) s =
     process_invoice_step_ok step parsed_result transcript now s"
| "handle P now (ConfirmStep step) s = confirm_step step now s"
| "handle P now (ConfirmLineItem add_another) s = confirm_line_item add_another s"
| "handle P now (UpdateField field_name field_value) s =
     update_invoice_field P field_name field_value now s"
| "handle P now AddAnotherItem s = add_another_item s"
| "handle P now ProceedToReview s = proceed_to_review s"
| "handle P now (ClearLineItem item_index) s = clear_line_item item_index s"
| "handle P now ClearAllLineItems s = clear_all_line_items s"
| "handle P now (NewWorkflow step) s = new_invoice_workflow step s"
| "handle P now Start s = start_invoice_workflow now s"
| "handle P now (GoToStep step) s = go_to_step_route step s"
| "handle P now Reset s = reset_workflow now s"
| "handle P now WfConfirmLineItem s = wf_confirm_line_item s"
| "handle P now WfAddAnotherItem s = wf_add_another_item s"
| "handle P now WfProceedToReview s = wf_proceed_to_review s"
| "handle P now ProceedToSubmit s = proceed_to_submit s"
| "handle P now (SubmitToXero created) s = submit_to_xero created s"
| "handle P now Complete s = complete_invoice_workflow s"

text \<open>The session after a sequence of timed requests, whatever each response was.\<close>

fun run :: "parsers \<Rightarrow> (time \<times> request) list \<Rightarrow> invoice_session \<Rightarrow> invoice_session" where
  "run P [] s = s"
| "run P ((now, r) # rs) s = run P rs (snd (handle P now r s))"

text \<open>A concrete parser triple for evaluating examples; no example calls it on digits.\<close>

definition no_parsers :: parsers where
  "no_parsers = \<lparr>py_int = (\<lambda>s. None), py_float = (\<lambda>s. None), clean_price = (\<lambda>s. s)\<rparr>"


section \<open>Invariants\<close>

text \<open>While the \<^verbatim>\<open>line_items\<close> entry is a list, it has at most ten elements.\<close>

definition line_items_bounded :: "invoice_session \<Rightarrow> bool" where
  "line_items_bounded s \<longleftrightarrow>
     max_line_items s = 10 \<and>
     (\<forall>l. map_of (invoice_data s) ''line_items'' = Some (VList l) \<longrightarrow> length l \<le> 10)"


section \<open>Example sessions\<close>

definition item1 :: val where
  "item1 = VDict [(''description'', VStr ''Consulting''), (''quantity'', VNum 10),
                  (''unit_price'', VNum 150), (''account_code'', VStr ''200''),
                  (''vat_rate'', VStr ''standard'')]"

definition full_session :: invoice_session where
  "full_session =
     (new_invoice_session ''a'' 0)
       \<lparr>invoice_data :=
          [(''contact_name'', VStr ''Acme''), (''due_date'', VStr ''2025-01-31''),
           (''line_items'', VList (replicate 10 item1)), (''current_line_item'', item1)],
        current_step := ''line_item'', line_item_count := 10, has_pending_item := True\<rparr>"


definition ahead_session :: invoice_session where
  "ahead_session =
     run no_parsers
       [(1, ConfirmStep None),
        (2, Step ''contact_name'' (InvoiceContactNameStep ''Acme Ltd'' True) ''acme limited''),
        (3, Step ''due_date'' (InvoiceDueDateStep ''2025-01-31'' None) ''end of january'')]
       (new_invoice_session ''a'' 0)"


definition filled_contact_session :: contact_session where
  "filled_contact_session =
     contact_store_step_result ''address''
       (ContactAddressStep ''1 High Street'' ''Leeds'' ''LS1 1AA'' ''GB'') ''one high street'' 3
       (contact_store_step_result ''email'' (ContactEmailStep ''info@acme.example'')
          ''info at acme'' 2
          (contact_store_step_result ''name'' (ContactNameStep ''Acme Ltd'' True)
             ''acme limited'' 1 (new_contact_session ''a'' 0)))"


definition revisit_session :: invoice_session where
  "revisit_session =
     run no_parsers
       [(1, Start),
        (2, Step ''contact_name'' (InvoiceContactNameStep ''Acme Ltd'' True) ''acme limited''),
        (3, ConfirmStep None),
        (4, Step ''due_date'' (InvoiceDueDateStep ''2025-01-31'' None) ''end of january''),
        (5, ConfirmStep None),
        (6, Step ''line_item'' (InvoiceLineItemStep ''Consulting'' 10 150 ''200'' ''standard'')
              ''ten hours''),
        (7, ConfirmLineItem True),
        (8, GoToStep ''contact_name'')]
       (new_invoice_session ''a'' 0)"


definition stale_flag_session :: invoice_session where
  "stale_flag_session =
     run no_parsers
       [(1, Step ''line_item'' (InvoiceLineItemStep ''Consulting'' 10 150 ''200'' ''standard'')
              ''ten hours''),
        (2, Reset),
        (3, Start),
        (4, ConfirmStep None),
        (5, ConfirmStep None)]
       (new_invoice_session ''a'' 0)"

definition unknown_step_session :: invoice_session where
  "unknown_step_session =
     run no_parsers
       [(1, ConfirmStep (Some ''bogus'')),
        (2, NewWorkflow (Some ''bogus''))]
       (new_invoice_session ''a'' 0)"





section \<open>Credentials of a request (common/token\_auth.py, session.py)\<close>

text \<open>
  A mobile client sends a JWT in the \<^verbatim>\<open>Authorization\<close> header; a web client has a signed
  cookie session. Decoding the JWT (\<^verbatim>\<open>validate_token\<close>) and verifying a signed cookie
  value (\<^verbatim>\<open>serializer.loads\<close> followed by \<^verbatim>\<open>parse_datetime_in_dict\<close>) are parameters.
  Header names are matched without regard to case, so the header list is keyed by the
  lower-case name.
\<close>

record token_payload =
  payload_session_id :: string
  xero_connected :: bool
  openai_valid :: bool
  payload_tenant_id :: "string option"
  payload_exp :: time
  payload_iat :: time

record mobile_session =
  mobile_session_id :: string
  xero_token :: "pydict option"
  openai_api_key :: "string option"
  tenant_id :: "string option"
  mobile_created_at :: time
  last_accessed :: time

record http_request =
  headers :: "(string \<times> string) list"
  cookie_session :: "(string \<times> string) list"
    \<comment> \<open>the cookie session: signed values by key\<close>

datatype loaded =
    Verified val
  | BadSignature
      \<comment> \<open>\<^verbatim>\<open>BadSignature\<close> or \<^verbatim>\<open>SignatureExpired\<close>\<close>
  | LoadFailure
      \<comment> \<open>any other exception\<close>

text \<open>\<^verbatim>\<open>SecureSessionManager.get_session_data\<close>: a value that fails verification is removed.\<close>

definition get_session_data ::
  "(string \<Rightarrow> loaded) \<Rightarrow> http_request \<Rightarrow> string \<Rightarrow> val \<times> http_request" where
  "get_session_data loads request key =
     (case map_of (cookie_session request) key of
        None \<Rightarrow> (VNone, request)
      | Some session_data \<Rightarrow>
          (case loads session_data of
             Verified verified_data \<Rightarrow> (verified_data, request)
           | BadSignature \<Rightarrow>
               (VNone, request\<lparr>cookie_session := AList.delete key (cookie_session request)\<rparr>)
           | LoadFailure \<Rightarrow> (VNone, request)))"

definition get_api_key :: "(string \<Rightarrow> loaded) \<Rightarrow> http_request \<Rightarrow> val \<times> http_request" where
  "get_api_key loads request = get_session_data loads request ''openai_api_key''"

text \<open>\<^verbatim>\<open>MobileAuthManager.get_mobile_session\<close>: a lookup refreshes \<^verbatim>\<open>last_accessed\<close>.\<close>

definition get_mobile_session ::
  "time \<Rightarrow> string \<Rightarrow> (string \<times> mobile_session) list
     \<Rightarrow> mobile_session option \<times> (string \<times> mobile_session) list" where
  "get_mobile_session now sid mobile_sessions =
     (case map_of mobile_sessions sid of
        None \<Rightarrow> (None, mobile_sessions)
      | Some session \<Rightarrow>
          (Some (session\<lparr>last_accessed := now\<rparr>),
           AList.update sid (session\<lparr>last_accessed := now\<rparr>) mobile_sessions))"

definition extract_bearer_token :: "http_request \<Rightarrow> string option" where
  "extract_bearer_token request =
     (let auth_header = (case map_of (headers request) ''authorization'' of
                           None \<Rightarrow> [] | Some h \<Rightarrow> h)
      in if startswith auth_header ''Bearer '' then Some (drop 7 auth_header) else None)"

text \<open>
  Both resolvers return the credential (\<open>VNone\<close> for \<^verbatim>\<open>None\<close>), the mobile sessions and
  the request, the last two as the call leaves them. \<^verbatim>\<open>if token:\<close> is false for a missing
  and for an empty token.
\<close>

definition get_xero_token ::
  "(string \<Rightarrow> token_payload option) \<Rightarrow> (string \<Rightarrow> loaded) \<Rightarrow> time
     \<Rightarrow> (string \<times> mobile_session) list \<Rightarrow> http_request
     \<Rightarrow> val \<times> (string \<times> mobile_session) list \<times> http_request" where
  "get_xero_token validate_token loads now mobile_sessions request =
     (case extract_bearer_token request of
        Some (c # cs) \<Rightarrow>
          (case validate_token (c # cs) of
             Some payload \<Rightarrow>
               (case get_mobile_session now (payload_session_id payload) mobile_sessions of
                  (Some session, mobile_sessions') \<Rightarrow>
                    (case xero_token session of
                       Some (e # es) \<Rightarrow> (VDict (e # es), mobile_sessions', request)
                     | _ \<Rightarrow> (VNone, mobile_sessions', request))
                | (None, mobile_sessions') \<Rightarrow> (VNone, mobile_sessions', request))
           | None \<Rightarrow> (VNone, mobile_sessions, request))
      | _ \<Rightarrow>
          (case get_session_data loads request ''xero_token'' of
             (v, request') \<Rightarrow> (v, mobile_sessions, request')))"

definition get_openai_api_key ::
  "(string \<Rightarrow> token_payload option) \<Rightarrow> (string \<Rightarrow> loaded) \<Rightarrow> time
     \<Rightarrow> (string \<times> mobile_session) list \<Rightarrow> http_request
     \<Rightarrow> val \<times> (string \<times> mobile_session) list \<times> http_request" where
  "get_openai_api_key validate_token loads now mobile_sessions request =
     (case extract_bearer_token request of
        Some (c # cs) \<Rightarrow>
          (case validate_token (c # cs) of
             Some payload \<Rightarrow>
               (case get_mobile_session now (payload_session_id payload) mobile_sessions of
                  (Some session, mobile_sessions') \<Rightarrow>
                    (case openai_api_key session of
                       Some (k # ks) \<Rightarrow> (VStr (k # ks), mobile_sessions', request)
                     | _ \<Rightarrow> (VNone, mobile_sessions', request))
                | (None, mobile_sessions') \<Rightarrow> (VNone, mobile_sessions', request))
           | None \<Rightarrow> (VNone, mobile_sessions, request))
      | _ \<Rightarrow>
          (case get_api_key loads request of
             (v, request') \<Rightarrow> (v, mobile_sessions, request')))"


section \<open>The store of invoice sessions (invoice\_workflow/session\_store.py)\<close>







section \<open>Voice steps (step\_handlers.py, routes/step\_routes.py)\<close>

text \<open>
  An upload carries its declared size, if any, its bytes and its file name. The
  transcription request (\<^verbatim>\<open>client.audio.transcriptions.create\<close>, answering the stripped
  text or raising) and the structured parse of one step (\<^verbatim>\<open>_parse_<step>_step\<close>, with
  the re-raising of a pydantic \<^verbatim>\<open>ValidationError\<close> as \<^verbatim>\<open>StepValidationError\<close>) are
  parameters, and every call to either is recorded in the order made. Failures of
  reading the upload itself are left out.
\<close>

record upload_file =
  file_size :: "nat option"
    \<comment> \<open>\<^verbatim>\<open>audio_file.size\<close>\<close>
  content :: string
  filename :: "string option"

datatype collaborator_call =
    Transcription string string
      \<comment> \<open>file name and audio bytes\<close>
  | Completion string string
      \<comment> \<open>step and transcript\<close>

definition MAX_AUDIO_SIZE :: nat where
  "MAX_AUDIO_SIZE = 10 * 1024 * 1024"

text \<open>
  \<^verbatim>\<open>transcribe_audio\<close> has the same body in both workflows. The size checks raise inside
  the \<^verbatim>\<open>try\<close> block, so their error is caught by \<^verbatim>\<open>except Exception\<close> and replaced, like
  every other failure, by the error of the last case.
\<close>

definition transcribe_audio ::
  "(string \<Rightarrow> string \<Rightarrow> py_error + string) \<Rightarrow> upload_file
     \<Rightarrow> (py_error + string) \<times> collaborator_call list" where
  "transcribe_audio whisper audio_file =
     (let attempt =
            (if (case file_size audio_file of
                   Some n \<Rightarrow> n \<noteq> 0 \<and> n > MAX_AUDIO_SIZE
                 | None \<Rightarrow> False)
             then (Inl (StepValidationError ''audio''
                     ''Audio file too large. Please keep recordings under 10MB.''), [])
             else let audio_content = content audio_file
                  in if length audio_content > MAX_AUDIO_SIZE
                     then (Inl (StepValidationError ''audio''
                             ''Audio file too large. Please keep recordings under 10MB.''), [])
                     else let name = (case filename audio_file of
                                        Some (c # cs) \<Rightarrow> c # cs
                                      | _ \<Rightarrow> ''audio.webm'')
                          in (whisper name audio_content, [Transcription name audio_content]))
      in case attempt of
           (Inl e, calls) \<Rightarrow>
             (Inl (StepValidationError ''audio''
                ''Failed to transcribe audio. Please try speaking again.''), calls)
         | (Inr transcript, calls) \<Rightarrow> (Inr transcript, calls))"

definition process_voice_step ::
  "(string \<Rightarrow> string \<Rightarrow> py_error + string) \<Rightarrow> (string \<Rightarrow> string \<Rightarrow> py_error + invoice_parsed)
     \<Rightarrow> upload_file \<Rightarrow> string
     \<Rightarrow> (py_error + string \<times> invoice_parsed) \<times> collaborator_call list" where
  "process_voice_step whisper parse audio_file step =
     (case transcribe_audio whisper audio_file of
        (Inl e, calls) \<Rightarrow> (Inl e, calls)
      | (Inr transcript, calls) \<Rightarrow>
          if step = ''contact_name'' \<or> step = ''due_date'' \<or> step = ''line_item''
          then (case parse step transcript of
                  Inl e \<Rightarrow> (Inl e, calls @ [Completion step transcript])
                | Inr result \<Rightarrow>
                    (Inr (transcript, result), calls @ [Completion step transcript]))
          else (Inl (ValueError (''Unknown voice step: '' @ step)), calls))"

definition contact_process_voice_step ::
  "(string \<Rightarrow> string \<Rightarrow> py_error + string) \<Rightarrow> (string \<Rightarrow> string \<Rightarrow> py_error + contact_parsed)
     \<Rightarrow> upload_file \<Rightarrow> string
     \<Rightarrow> (py_error + string \<times> contact_parsed) \<times> collaborator_call list" where
  "contact_process_voice_step whisper parse audio_file step =
     (case transcribe_audio whisper audio_file of
        (Inl e, calls) \<Rightarrow> (Inl e, calls)
      | (Inr transcript, calls) \<Rightarrow>
          if step = ''name'' \<or> step = ''email'' \<or> step = ''address'' \<or> step = ''confirmation''
          then (case parse step transcript of
                  Inl e \<Rightarrow> (Inl e, calls @ [Completion step transcript])
                | Inr result \<Rightarrow>
                    (Inr (transcript, result), calls @ [Completion step transcript]))
          else (Inl (ValueError (''Unknown step: '' @ step)), calls))"

text \<open>
  The handlers of \<^verbatim>\<open>POST /step\<close>, from the session and the API key they have looked up:
  a \<^verbatim>\<open>StepValidationError\<close> is answered with VALIDATION\_ERROR and status 400, any other
  exception with PROCESSING\_ERROR and status 500.
\<close>

definition process_invoice_step ::
  "(string \<Rightarrow> string \<Rightarrow> py_error + string) \<Rightarrow> (string \<Rightarrow> string \<Rightarrow> py_error + invoice_parsed)
     \<Rightarrow> val \<Rightarrow> string \<Rightarrow> upload_file \<Rightarrow> time \<Rightarrow> invoice_session
     \<Rightarrow> (response \<times> invoice_session) \<times> collaborator_call list" where
  "process_invoice_step whisper parse api_key step audio_file now s =
     (if \<not> truthy api_key then ((Rejected ''API_KEY_MISSING'' 400, s), [])
      else case process_voice_step whisper parse audio_file step of
             (Inr (transcript, parsed_result), calls) \<Rightarrow>
               (process_invoice_step_ok step parsed_result transcript now s, calls)
           | (Inl (StepValidationError field message), calls) \<Rightarrow>
               ((Rejected ''VALIDATION_ERROR'' 400, s), calls)
           | (Inl e, calls) \<Rightarrow> ((Rejected ''PROCESSING_ERROR'' 500, s), calls))"

definition process_contact_step ::
  "(string \<Rightarrow> string \<Rightarrow> py_error + string) \<Rightarrow> (string \<Rightarrow> string \<Rightarrow> py_error + contact_parsed)
     \<Rightarrow> val \<Rightarrow> string \<Rightarrow> upload_file \<Rightarrow> time \<Rightarrow> contact_session
     \<Rightarrow> (response \<times> contact_session) \<times> collaborator_call list" where
  "process_contact_step whisper parse api_key step audio_file now s =
     (if \<not> truthy api_key then ((Rejected ''API_KEY_MISSING'' 400, s), [])
      else case contact_process_voice_step whisper parse audio_file step of
             (Inr (transcript, parsed_result), calls) \<Rightarrow>
               ((Done, contact_store_step_result step parsed_result transcript now s), calls)
           | (Inl (StepValidationError field message), calls) \<Rightarrow>
               ((Rejected ''VALIDATION_ERROR'' 400, s), calls)
           | (Inl e, calls) \<Rightarrow> ((Rejected ''PROCESSING_ERROR'' 500, s), calls))"


text \<open>A line item is parsed and the workflow is reset before any decision on the item.\<close>

definition reset_before_decision :: invoice_session where
  "reset_before_decision =
     run no_parsers
       [(1, Step ''line_item'' (InvoiceLineItemStep ''Consulting'' 10 150 ''200'' ''standard'')
              ''ten hours''),
        (2, Reset)]
       (new_invoice_session ''a'' 0)"

text \<open>
  The workflow is followed up to "line\_item", a line item is parsed there, and the
  client goes back to the completed step "contact\_name" before any decision on the item.
\<close>

definition back_before_decision :: invoice_session where
  "back_before_decision =
     run no_parsers
       [(1, Start),
        (2, Step ''contact_name'' (InvoiceContactNameStep ''Acme'' True) ''acme''),
        (3, ConfirmStep None),
        (4, Step ''due_date'' (InvoiceDueDateStep ''2025-01-31'' None) ''end of january''),
        (5, ConfirmStep None),
        (6, Step ''line_item'' (InvoiceLineItemStep ''Consulting'' 10 150 ''200'' ''standard'')
              ''ten hours''),
        (7, GoToStep ''contact_name'')]
       (new_invoice_session ''a'' 0)"


section \<open>Properties\<close>

lemma index_of_Some_iff: "index_of xs x = Some i \<Longrightarrow> i < length xs \<and> xs ! i = x"
  by (induction xs arbitrary: i) (auto split: if_splits)

lemma index_of_None_iff: "index_of xs x = None \<longleftrightarrow> x \<notin> set xs"
  by (induction xs) auto

subsection \<open>Advancing\<close>

lemma advance_step_next:
  assumes "index_of steps (current_step s) = Some i" and "Suc i < length steps"
  shows "advance_step steps now s =
           Inr (Some (steps ! Suc i), s\<lparr>current_step := steps ! Suc i, updated_at := now\<rparr>)"
  using assms by (simp add: advance_step_def)

lemma advance_step_last:
  assumes "index_of steps (current_step s) = Some i" and "Suc i = length steps"
  shows "advance_step steps now s = Inr (None, s)"
  using assms by (simp add: advance_step_def)

text \<open>
  What advancing does, by cases: at "line\_item" with the pending flag set, an invoice
  session returns the same step and changes nothing. Otherwise, for a current step at
  position \<open>i\<close> of the ordered step list, advancing moves to the step at position
  \<open>i + 1\<close> and returns it; at the last position it returns \<^verbatim>\<open>None\<close> and the session is
  unchanged. The base method, which contact sessions inherit, has no loop case.
\<close>

lemma advance_step_cases:
  "(index_of invoice_workflow_steps (current_step s) = Some i \<longrightarrow>
      invoice_advance_step now s =
        (if current_step s = ''line_item'' \<and> has_pending_item s
         then Inr (Some ''line_item'', s)
         else if Suc i < length invoice_workflow_steps
         then Inr (Some (invoice_workflow_steps ! Suc i),
                   s\<lparr>current_step := invoice_workflow_steps ! Suc i, updated_at := now\<rparr>)
         else Inr (None, s)))
   \<and> (index_of contact_workflow_steps (current_step c) = Some j \<longrightarrow>
      contact_advance_step now c =
        (if Suc j < length contact_workflow_steps
         then Inr (Some (contact_workflow_steps ! Suc j),
                   c\<lparr>current_step := contact_workflow_steps ! Suc j, updated_at := now\<rparr>)
         else Inr (None, c)))"
proof (intro conjI impI)
  assume i: "index_of invoice_workflow_steps (current_step s) = Some i"
  then have "i < length invoice_workflow_steps"
    using index_of_Some_iff by fastforce
  with i show "invoice_advance_step now s =
        (if current_step s = ''line_item'' \<and> has_pending_item s
         then Inr (Some ''line_item'', s)
         else if Suc i < length invoice_workflow_steps
         then Inr (Some (invoice_workflow_steps ! Suc i),
                   s\<lparr>current_step := invoice_workflow_steps ! Suc i, updated_at := now\<rparr>)
         else Inr (None, s))"
    by (auto simp: invoice_advance_step_def advance_step_next advance_step_last)
next
  assume j: "index_of contact_workflow_steps (current_step c) = Some j"
  then have "j < length contact_workflow_steps"
    using index_of_Some_iff by fastforce
  with j show "contact_advance_step now c =
        (if Suc j < length contact_workflow_steps
         then Inr (Some (contact_workflow_steps ! Suc j),
                   c\<lparr>current_step := contact_workflow_steps ! Suc j, updated_at := now\<rparr>)
         else Inr (None, c))"
    by (auto simp: contact_advance_step_def advance_step_next advance_step_last)
qed

lemma advance_step_cases_example:
  "index_of invoice_workflow_steps (current_step (new_invoice_session ''a'' 0)) = Some 0
   \<and> invoice_advance_step 5 (new_invoice_session ''a'' 0) =
       Inr (Some ''contact_name'',
            (new_invoice_session ''a'' 0)\<lparr>current_step := ''contact_name'', updated_at := 5\<rparr>)
   \<and> index_of contact_workflow_steps
         (current_step ((new_contact_session ''b'' 0)\<lparr>current_step := ''complete''\<rparr>)) = Some 6
   \<and> contact_advance_step 5 ((new_contact_session ''b'' 0)\<lparr>current_step := ''complete''\<rparr>) =
       Inr (None, (new_contact_session ''b'' 0)\<lparr>current_step := ''complete''\<rparr>)"
  using advance_step_cases [of "new_invoice_session ''a'' 0" 0 5
      "(new_contact_session ''b'' 0)\<lparr>current_step := ''complete''\<rparr>" 6]
  by (simp add: invoice_workflow_steps_def contact_workflow_steps_def new_invoice_session_def
      new_contact_session_def invoice_initial_step_def)

text \<open>
  C5. The loop case of advancing is decided by the pending flag, not by the pending
  item, and \<^verbatim>\<open>reset\<close> leaves the flag as it is. After a line item is parsed and the
  workflow is reset, started and confirmed up to "line\_item", no pending item exists,
  yet advancing returns "line\_item" and does not move to "review". And when the current
  step is not in the step list (an unknown step was confirmed and then revisited),
  advancing raises instead of returning a step or \<^verbatim>\<open>None\<close>.
\<close>

theorem advance_with_stale_pending_flag:
  "current_step stale_flag_session = ''line_item''
   \<and> dict_get (invoice_data stale_flag_session) ''current_line_item'' = VNone
   \<and> dict_get (invoice_data stale_flag_session) ''line_items'' = VList []
   \<and> has_pending_item stale_flag_session
   \<and> invoice_advance_step 6 stale_flag_session = Inr (Some ''line_item'', stale_flag_session)
   \<and> current_step unknown_step_session = ''bogus''
   \<and> invoice_advance_step 3 unknown_step_session = Inl (ValueError ''not in list'')"
  by (simp add: stale_flag_session_def unknown_step_session_def confirm_step_def
      new_invoice_session_def invoice_initial_step_def invoice_advance_step_def advance_step_def
      start_invoice_workflow_def reset_workflow_def reset_def new_invoice_workflow_def
      invoice_workflow_steps_def process_invoice_step_ok_def invoice_store_step_result_def
      Let_def dict_update_def dict_get_def)


subsection \<open>Resubmitting a completed step\<close>

lemma dict_get_update:
  "dict_get (AList.update k v d) k' = (if k' = k then v else dict_get d k')"
  by (simp add: dict_get_def update_conv')

lemma filled_contact_session_eval:
  "completed_steps filled_contact_session = [''name'', ''email'', ''address'']"
  by (simp add: filled_contact_session_def contact_store_step_result_def
      mark_step_complete_def Let_def new_contact_session_def dict_update_def)

text \<open>
  C7. When voice input is stored again for a step that is already in
  \<^verbatim>\<open>completed_steps\<close>, the transcript and the parsed result of that step are
  overwritten (last write wins), the draft field of that step takes the newly parsed
  value (the name, the e-mail address, or the four parts of the address) while the other
  draft fields keep theirs, and \<^verbatim>\<open>completed_steps\<close> stays as it was, so its length does
  not change.
\<close>

theorem resubmit_completed_step:
  assumes "step \<in> set (completed_steps s)"
    and "s' = contact_store_step_result step result transcript now s"
  shows "completed_steps s' = completed_steps s
    \<and> length (completed_steps s') = length (completed_steps s)
    \<and> map_of (c_transcripts s') step = Some transcript
    \<and> map_of (c_parsed_results s') step = Some result
    \<and> (step = ''name'' \<and> result = ContactNameStep name is_org \<longrightarrow>
          dict_get (contact_data s') ''name'' = VStr name
          \<and> dict_get (contact_data s') ''email_address''
              = dict_get (contact_data s) ''email_address''
          \<and> dict_get (contact_data s') ''address'' = dict_get (contact_data s) ''address'')
    \<and> (step = ''email'' \<and> result = ContactEmailStep email_address \<longrightarrow>
          dict_get (contact_data s') ''email_address'' = VStr email_address
          \<and> dict_get (contact_data s') ''name'' = dict_get (contact_data s) ''name''
          \<and> dict_get (contact_data s') ''address'' = dict_get (contact_data s) ''address'')
    \<and> (step = ''address'' \<and> result = ContactAddressStep address_line1 city postal_code country
          \<longrightarrow>
          dict_get (contact_data s') ''address''
            = VDict [(''AddressLine1'', VStr address_line1), (''City'', VStr city),
                     (''PostalCode'', VStr postal_code), (''Country'', VStr country)]
          \<and> dict_get (contact_data s') ''name'' = dict_get (contact_data s) ''name''
          \<and> dict_get (contact_data s') ''email_address''
              = dict_get (contact_data s) ''email_address'')"
  using assms
  by (auto simp: contact_store_step_result_def mark_step_complete_def Let_def update_conv'
      dict_update_def dict_get_update)

theorem resubmit_completed_step_witness:
  "''email'' \<in> set (completed_steps filled_contact_session)
   \<and> completed_steps (contact_store_step_result ''email'' (ContactEmailStep ''sales@acme.example'')
         ''sales at acme'' 4 filled_contact_session) = [''name'', ''email'', ''address'']
   \<and> map_of (c_transcripts (contact_store_step_result ''email''
         (ContactEmailStep ''sales@acme.example'') ''sales at acme'' 4 filled_contact_session))
         ''email'' = Some ''sales at acme''
   \<and> dict_get (contact_data (contact_store_step_result ''email''
         (ContactEmailStep ''sales@acme.example'') ''sales at acme'' 4 filled_contact_session))
         ''email_address'' = VStr ''sales@acme.example''
   \<and> ''address'' \<in> set (completed_steps filled_contact_session)
   \<and> dict_get (contact_data (contact_store_step_result ''address''
         (ContactAddressStep ''2 Low Road'' ''York'' ''YO1 2BB'' ''GB'') ''two low road'' 5
         filled_contact_session)) ''address''
       = VDict [(''AddressLine1'', VStr ''2 Low Road''), (''City'', VStr ''York''),
                (''PostalCode'', VStr ''YO1 2BB''), (''Country'', VStr ''GB'')]
   \<and> ''name'' \<in> set (completed_steps filled_contact_session)
   \<and> dict_get (contact_data (contact_store_step_result ''name''
         (ContactNameStep ''Acme Group'' True) ''acme group'' 6 filled_contact_session)) ''name''
       = VStr ''Acme Group''"
  using resubmit_completed_step [of "''email''" filled_contact_session _
      "ContactEmailStep ''sales@acme.example''" "''sales at acme''" 4 _ _
      "''sales@acme.example''", OF _ refl]
    resubmit_completed_step [of "''address''" filled_contact_session _
      "ContactAddressStep ''2 Low Road'' ''York'' ''YO1 2BB'' ''GB''" "''two low road''" 5
      _ _ _ "''2 Low Road''" "''York''" "''YO1 2BB''" "''GB''",
      OF _ refl]
    resubmit_completed_step [of "''name''" filled_contact_session _
      "ContactNameStep ''Acme Group'' True" "''acme group''" 6 "''Acme Group''" True, OF _ refl]
  by (simp add: filled_contact_session_eval)


subsection \<open>The bound on the line-item list\<close>

lemma add_line_item_bounded:
  "add_line_item item s = Inr s' \<Longrightarrow> line_items_bounded s \<Longrightarrow> line_items_bounded s'"
  by (auto simp: add_line_item_def line_items_bounded_def dict_item_def update_conv'
      split: option.splits sum.splits val.splits if_splits)

lemma commit_bounded:
  "line_items_bounded s \<Longrightarrow>
   (if truthy c then add_line_item c s else Inr s) = Inr s' \<Longrightarrow> line_items_bounded s'"
  by (auto split: if_splits dest: add_line_item_bounded)

lemma bounded_step_upd [simp]:
  "line_items_bounded (s\<lparr>current_step := x\<rparr>) = line_items_bounded s"
  "line_items_bounded (s\<lparr>completed_steps := y\<rparr>) = line_items_bounded s"
  "line_items_bounded (s\<lparr>has_pending_item := b\<rparr>) = line_items_bounded s"
  "line_items_bounded (s\<lparr>updated_at := t\<rparr>) = line_items_bounded s"
  by (simp_all add: line_items_bounded_def)

lemma advance_bounded:
  "invoice_advance_step now s = Inr (n, s') \<Longrightarrow> line_items_bounded s \<Longrightarrow> line_items_bounded s'"
  by (auto simp: invoice_advance_step_def advance_step_def split: if_splits option.splits)

lemma store_bounded:
  "line_items_bounded s \<Longrightarrow> line_items_bounded (invoice_store_step_result step r t now s)"
  by (cases r)
     (auto simp: invoice_store_step_result_def line_items_bounded_def Let_def dict_update_def
        mark_step_complete_def update_conv' dict_get_def)

lemma assign_bounded:
  "assign_item_field idx f v s = Inr s' \<Longrightarrow> line_items_bounded s \<Longrightarrow> line_items_bounded s'"
  by (auto simp: assign_item_field_def line_items_bounded_def dict_item_def update_conv'
      split: option.splits sum.splits val.splits if_splits)

lemma set_field_bounded:
  "set_line_item_field P idx f v s = Inr s' \<Longrightarrow> line_items_bounded s \<Longrightarrow> line_items_bounded s'"
  by (auto simp: set_line_item_field_def split: option.splits sum.splits if_splits
      dest: assign_bounded)


lemma update_line_item_field_bounded:
  "update_line_item_field P k v s = Inr s' \<Longrightarrow> line_items_bounded s \<Longrightarrow> line_items_bounded s'"
  unfolding update_line_item_field_def Let_def
  by (auto split: option.splits sum.splits if_splits py_error.splits dest: set_field_bounded)

lemma update_address_field_bounded:
  "update_address_field k v s = Inr s' \<Longrightarrow> line_items_bounded s \<Longrightarrow> line_items_bounded s'"
  unfolding update_address_field_def Let_def
  by (auto simp: line_items_bounded_def update_conv' dict_item_def
      split: option.splits sum.splits if_splits val.splits)


lemma update_field_bounded:
  assumes "update_field P k v now s = Inr s'" and "line_items_bounded s"
  shows "line_items_bounded s'"
proof -
  consider (li) "startswith k ''line_item_''"
    | (simple) "\<not> startswith k ''line_item_''"
        "k \<in> set [''contact_name'', ''contact_id'', ''due_date'']"
    | (addr) "\<not> startswith k ''line_item_''"
        "k \<notin> set [''contact_name'', ''contact_id'', ''due_date'']"
        "k \<in> set [''address_line1'', ''city'', ''postal_code'', ''country'']"
    | (other) "\<not> startswith k ''line_item_''"
        "k \<notin> set [''contact_name'', ''contact_id'', ''due_date'']"
        "k \<notin> set [''address_line1'', ''city'', ''postal_code'', ''country'']"
    by blast
  then show ?thesis
  proof cases
    case li
    with assms(1) obtain s1 where "update_line_item_field P k v s = Inr s1"
      and "s' = s1\<lparr>updated_at := now\<rparr>"
      by (auto simp: update_field_def split: sum.splits)
    with assms(2) show ?thesis
      by (auto dest: update_line_item_field_bounded)
  next
    case simple
    with assms(1) have "s' = s\<lparr>invoice_data := AList.update k (VStr v) (invoice_data s),
        updated_at := now\<rparr>"
      by (simp add: update_field_def del: set_simps)
    with assms(2) simple(2) show ?thesis
      by (auto simp: line_items_bounded_def update_conv')
  next
    case addr
    with assms(1) obtain s1 where "update_address_field k v s = Inr s1"
      and "s' = s1\<lparr>updated_at := now\<rparr>"
      by (auto simp: update_field_def simp del: set_simps split: sum.splits)
    with assms(2) show ?thesis
      by (auto dest: update_address_field_bounded)
  next
    case other
    with assms(1) have "s' = s\<lparr>invoice_data := AList.update k (VStr v) (invoice_data s),
        updated_at := now\<rparr>"
      by (simp add: update_field_def del: set_simps)
    with assms(2) show ?thesis
      by (auto simp: line_items_bounded_def update_conv')
  qed
qed

lemma reset_bounded: "line_items_bounded s \<Longrightarrow> line_items_bounded (reset now s)"
  by (simp add: reset_def line_items_bounded_def)

lemma handle_bounded:
  "line_items_bounded s \<Longrightarrow> line_items_bounded (snd (handle P now r s))"
proof (cases r)
  case (Step step res tr)
  then show "line_items_bounded s \<Longrightarrow> ?thesis"
    by (simp add: process_invoice_step_ok_def store_bounded)
next
  case (ConfirmStep st)
  then show "line_items_bounded s \<Longrightarrow> ?thesis"
    by (auto simp: confirm_step_def Let_def split: sum.splits prod.splits dest: advance_bounded)
next
  case (ConfirmLineItem b)
  then show "line_items_bounded s \<Longrightarrow> ?thesis"
    by (auto simp: confirm_line_item_def Let_def split: sum.splits dest: add_line_item_bounded)
next
  case (UpdateField k v)
  then show "line_items_bounded s \<Longrightarrow> ?thesis"
    by (auto simp: update_invoice_field_def split: sum.splits dest: update_field_bounded)
next
  case AddAnotherItem
  then show "line_items_bounded s \<Longrightarrow> ?thesis"
    by (auto simp: add_another_item_def Let_def split: sum.splits dest: add_line_item_bounded)
next
  case ProceedToReview
  then show "line_items_bounded s \<Longrightarrow> ?thesis"
    by (auto simp: proceed_to_review_def Let_def split: sum.splits dest: add_line_item_bounded)
next
  case (ClearLineItem i)
  then show "line_items_bounded s \<Longrightarrow> ?thesis"
    by (auto simp: clear_line_item_def line_items_bounded_def update_conv' dict_item_def
        split: sum.splits option.splits val.splits)
next
  case ClearAllLineItems
  then show "line_items_bounded s \<Longrightarrow> ?thesis"
    by (simp add: clear_all_line_items_def line_items_bounded_def update_conv')
next
  case (NewWorkflow st)
  then show "line_items_bounded s \<Longrightarrow> ?thesis"
    by (auto simp: new_invoice_workflow_def split: option.splits)
next
  case Start
  then show "line_items_bounded s \<Longrightarrow> ?thesis"
    by (auto simp: start_invoice_workflow_def split: sum.splits prod.splits dest: advance_bounded)
next
  case (GoToStep st)
  then show "line_items_bounded s \<Longrightarrow> ?thesis"
    by (simp add: go_to_step_route_def Let_def)
next
  case Reset
  then show "line_items_bounded s \<Longrightarrow> ?thesis"
    by (simp add: reset_workflow_def reset_bounded)
next
  case WfConfirmLineItem
  then show "line_items_bounded s \<Longrightarrow> ?thesis"
    by (auto simp: wf_confirm_line_item_def Let_def split: sum.splits dest: add_line_item_bounded)
next
  case WfAddAnotherItem
  then show "line_items_bounded s \<Longrightarrow> ?thesis"
    by (auto simp: wf_add_another_item_def Let_def split: sum.splits dest: add_line_item_bounded)
next
  case WfProceedToReview
  then show "line_items_bounded s \<Longrightarrow> ?thesis"
    by (auto simp: wf_proceed_to_review_def Let_def split: sum.splits dest: add_line_item_bounded)
next
  case ProceedToSubmit
  then show "line_items_bounded s \<Longrightarrow> ?thesis"
    by (auto simp: proceed_to_submit_def split: sum.splits)
next
  case (SubmitToXero b)
  then show "line_items_bounded s \<Longrightarrow> ?thesis"
    by (simp add: submit_to_xero_def)
next
  case Complete
  then show "line_items_bounded s \<Longrightarrow> ?thesis"
    by (simp add: complete_invoice_workflow_def)
qed

lemma run_bounded: "line_items_bounded s \<Longrightarrow> line_items_bounded (run P rs s)"
  by (induction rs arbitrary: s) (auto simp: handle_bounded)

lemma new_session_bounded: "line_items_bounded (new_invoice_session sid now)"
  by (simp add: line_items_bounded_def new_invoice_session_def)

subsection \<open>Capacity of the line-item list\<close>

lemma str_nat_10: "str_nat 10 = ''10''"
  by (simp add: str_nat.simps)

text \<open>
  C4. With ten items already committed, \<^verbatim>\<open>add_line_item\<close> raises the capacity error
  before it touches the session, and the line-item decision that tried to commit the
  pending item is answered with an error and leaves the session, hence the list, as it
  was. After any sequence of requests on a new session, the line-item list has at most
  ten elements.
\<close>

theorem line_item_capacity:
  "(dict_item (invoice_data s) ''line_items'' = Inr (VList l) \<and> length l = 10
      \<and> max_line_items s = 10 \<longrightarrow>
      add_line_item item s = Inl (ValueError ''Maximum 10 line items allowed'')
      \<and> (truthy (dict_get (invoice_data s) ''current_line_item'') \<longrightarrow>
           confirm_line_item add_another s = (Rejected ''LINE_ITEM_ERROR'' 500, s)))
   \<and> (dict_item (invoice_data (run P rs (new_invoice_session sid t))) ''line_items''
         = Inr (VList l') \<longrightarrow> length l' \<le> 10)"
proof (intro conjI impI)
  assume a: "dict_item (invoice_data s) ''line_items'' = Inr (VList l) \<and> length l = 10
      \<and> max_line_items s = 10"
  then show full: "add_line_item item s = Inl (ValueError ''Maximum 10 line items allowed'')"
    by (simp add: add_line_item_def str_nat_10)
  assume "truthy (dict_get (invoice_data s) ''current_line_item'')"
  with a show "confirm_line_item add_another s = (Rejected ''LINE_ITEM_ERROR'' 500, s)"
    by (simp add: confirm_line_item_def Let_def add_line_item_def str_nat_10)
next
  assume "dict_item (invoice_data (run P rs (new_invoice_session sid t))) ''line_items''
         = Inr (VList l')"
  moreover have "line_items_bounded (run P rs (new_invoice_session sid t))"
    by (rule run_bounded [OF new_session_bounded])
  ultimately show "length l' \<le> 10"
    by (auto simp: line_items_bounded_def dict_item_def split: option.splits)
qed

theorem line_item_capacity_witness:
  "dict_item (invoice_data full_session) ''line_items'' = Inr (VList (replicate 10 item1))
   \<and> length (replicate 10 item1) = 10 \<and> max_line_items full_session = 10
   \<and> truthy (dict_get (invoice_data full_session) ''current_line_item'')
   \<and> add_line_item item1 full_session = Inl (ValueError ''Maximum 10 line items allowed'')
   \<and> confirm_line_item False full_session = (Rejected ''LINE_ITEM_ERROR'' 500, full_session)
   \<and> dict_item (invoice_data (run no_parsers
          [(1, Start), (2, Step ''line_item''
                 (InvoiceLineItemStep ''Consulting'' 10 150 ''200'' ''standard'') ''ten hours''),
           (3, ConfirmLineItem True)] (new_invoice_session ''a'' 0))) ''line_items''
         = Inr (VList [item1])
   \<and> length [item1] \<le> 10"
  using line_item_capacity [of full_session "replicate 10 item1" item1 False no_parsers
      "[(1, Start), (2, Step ''line_item''
                 (InvoiceLineItemStep ''Consulting'' 10 150 ''200'' ''standard'') ''ten hours''),
           (3, ConfirmLineItem True)]" "''a''" 0 "[item1]"]
  by (simp add: full_session_def item1_def new_invoice_session_def dict_item_def dict_get_def
      start_invoice_workflow_def invoice_advance_step_def advance_step_def
      invoice_workflow_steps_def invoice_initial_step_def process_invoice_step_ok_def
      invoice_store_step_result_def Let_def dict_update_def confirm_line_item_def
      add_line_item_def)

subsection \<open>Navigation\<close>

lemma ahead_session_eval:
  "current_step ahead_session = ''contact_name''"
  "completed_steps ahead_session = [''welcome'', ''contact_name'', ''due_date'']"
  by (simp_all add: ahead_session_def confirm_step_def new_invoice_session_def
      invoice_initial_step_def invoice_advance_step_def advance_step_def
      invoice_workflow_steps_def process_invoice_step_ok_def invoice_store_step_result_def
      Let_def dict_update_def dict_get_def mark_step_complete_def)

lemma revisit_session_eval:
  "current_step revisit_session = ''contact_name''"
  "completed_steps revisit_session = [''contact_name'', ''due_date'']"
  "dict_get (invoice_data revisit_session) ''line_items'' = VList [item1]"
  by (simp_all add: revisit_session_def confirm_step_def new_invoice_session_def
      invoice_initial_step_def invoice_advance_step_def advance_step_def
      start_invoice_workflow_def go_to_step_route_def confirm_line_item_def add_line_item_def
      invoice_workflow_steps_def process_invoice_step_ok_def invoice_store_step_result_def
      Let_def dict_update_def dict_get_def dict_item_def mark_step_complete_def item1_def)

text \<open>
  C2 (as amended). The session method \<^verbatim>\<open>go_to_step(target)\<close> returns true, and sets
  \<^verbatim>\<open>current_step\<close> to the target, exactly when the target is in the active step list and
  its position there is at most the number of completed steps; otherwise it returns
  false and the session is unchanged. The route handler that clients call navigates
  exactly when the target is in the active step list and is a completed step or the
  current step or, in the invoice workflow, "line\_item" once a line item has been
  committed; it answers INVALID\_STEP for a target outside the step list and
  STEP\_NOT\_ACCESSIBLE for any other target, and then leaves the session unchanged.
\<close>

theorem go_to_step_gate:
  "(step \<notin> set steps \<longrightarrow> go_to_step steps step now s = (False, s))
   \<and> (index_of steps step = Some i \<longrightarrow>
        go_to_step steps step now s =
          (if i \<le> length (completed_steps s)
           then (True, s\<lparr>current_step := step, updated_at := now\<rparr>)
           else (False, s)))
   \<and> (step \<notin> set invoice_workflow_steps \<longrightarrow>
        go_to_step_route step v = (Rejected ''INVALID_STEP'' 400, v))
   \<and> (step \<in> set invoice_workflow_steps \<longrightarrow>
        go_to_step_route step v =
          (if step \<in> set (completed_steps v) \<or> step = current_step v
              \<or> (step = ''line_item'' \<and> truthy (dict_get (invoice_data v) ''line_items''))
           then (Done, v\<lparr>current_step := step\<rparr>)
           else (Rejected ''STEP_NOT_ACCESSIBLE'' 400, v)))
   \<and> (step \<notin> set contact_workflow_steps \<longrightarrow>
        contact_go_to_step_route step c = (Rejected ''INVALID_STEP'' 400, c))
   \<and> (step \<in> set contact_workflow_steps \<longrightarrow>
        contact_go_to_step_route step c =
          (if step \<in> set (completed_steps c) \<or> step = current_step c
           then (Done, c\<lparr>current_step := step\<rparr>)
           else (Rejected ''STEP_NOT_ACCESSIBLE'' 400, c)))"
proof (intro conjI)
  show "step \<notin> set steps \<longrightarrow> go_to_step steps step now s = (False, s)"
    by (auto simp: go_to_step_def index_of_None_iff [symmetric])
  show "index_of steps step = Some i \<longrightarrow>
        go_to_step steps step now s =
          (if i \<le> length (completed_steps s)
           then (True, s\<lparr>current_step := step, updated_at := now\<rparr>)
           else (False, s))"
    by (simp add: go_to_step_def)
qed (auto simp: go_to_step_route_def contact_go_to_step_route_def Let_def)

theorem go_to_step_gate_witness:
  "''bogus'' \<notin> set invoice_workflow_steps
   \<and> go_to_step invoice_workflow_steps ''bogus'' 4 ahead_session = (False, ahead_session)
   \<and> go_to_step_route ''bogus'' revisit_session
       = (Rejected ''INVALID_STEP'' 400, revisit_session)
   \<and> ''bogus'' \<notin> set contact_workflow_steps
   \<and> contact_go_to_step_route ''bogus'' filled_contact_session
       = (Rejected ''INVALID_STEP'' 400, filled_contact_session)
   \<and> index_of invoice_workflow_steps ''review'' = Some 4
   \<and> go_to_step invoice_workflow_steps ''review'' 4 ahead_session = (False, ahead_session)
   \<and> ''review'' \<in> set invoice_workflow_steps
   \<and> go_to_step_route ''review'' revisit_session
       = (Rejected ''STEP_NOT_ACCESSIBLE'' 400, revisit_session)
   \<and> ''email'' \<in> set contact_workflow_steps
   \<and> contact_go_to_step_route ''email'' filled_contact_session
       = (Done, filled_contact_session\<lparr>current_step := ''email''\<rparr>)"
  using go_to_step_gate [of "''bogus''" invoice_workflow_steps 4 ahead_session 0
      revisit_session filled_contact_session]
    go_to_step_gate [of "''review''" invoice_workflow_steps 4 ahead_session 4
      revisit_session filled_contact_session]
    go_to_step_gate [of "''email''" invoice_workflow_steps 4 ahead_session 0
      revisit_session filled_contact_session]
  by (simp add: invoice_workflow_steps_def contact_workflow_steps_def ahead_session_eval
      revisit_session_eval filled_contact_session_eval)


text \<open>
  C2 as stated fails on both paths. With "welcome", "contact\_name" and "due\_date"
  completed and the session still at "contact\_name", the method accepts "line\_item",
  which is not completed, not current and two positions ahead. After one line item has
  been committed with "add another" and the user has gone back to "contact\_name", the
  route accepts "line\_item" in the same situation.
\<close>

theorem go_to_step_skips_ahead:
  "fst (go_to_step invoice_workflow_steps ''line_item'' 4 ahead_session) = True
   \<and> current_step (snd (go_to_step invoice_workflow_steps ''line_item'' 4 ahead_session))
       = ''line_item''
   \<and> ''line_item'' \<notin> set (completed_steps ahead_session)
   \<and> ''line_item'' \<noteq> current_step ahead_session
   \<and> index_of invoice_workflow_steps (current_step ahead_session) = Some 1
   \<and> index_of invoice_workflow_steps ''line_item'' = Some 3
   \<and> go_to_step_route ''line_item'' revisit_session
       = (Done, revisit_session\<lparr>current_step := ''line_item''\<rparr>)
   \<and> ''line_item'' \<notin> set (completed_steps revisit_session)
   \<and> ''line_item'' \<noteq> current_step revisit_session
   \<and> index_of invoice_workflow_steps (current_step revisit_session) = Some 1"
  by (simp add: go_to_step_def invoice_workflow_steps_def ahead_session_eval
      revisit_session_eval go_to_step_route_def)


subsection \<open>Frame properties and the absence of duplicates\<close>















subsection \<open>The line-item loop\<close>









subsection \<open>Steps recorded as completed\<close>

text \<open>
  C1. \<^verbatim>\<open>completed_steps\<close> never holds a step twice (lemma
  \<open>completed_steps_no_duplicates\<close>), but it can hold a step that is not in the active
  step list: \<^verbatim>\<open>confirm_step\<close> records whatever step name the request carries,
  \<^verbatim>\<open>mark_step_complete\<close> does not check its argument, and the older "proceed to review"
  handler records "line\_item\_confirm", which the active list does not contain.
\<close>

theorem confirm_step_records_unknown_step:
  "''bogus'' \<notin> set invoice_workflow_steps
   \<and> confirm_step (Some ''bogus'') 1 (new_invoice_session ''a'' 0)
       = (Done, (new_invoice_session ''a'' 0)
                  \<lparr>completed_steps := [''bogus''], current_step := ''contact_name'',
                   updated_at := 1\<rparr>)
   \<and> completed_steps (run no_parsers [(1, ConfirmStep (Some ''bogus''))]
         (new_invoice_session ''a'' 0)) = [''bogus'']
   \<and> completed_steps (mark_step_complete ''bogus'' [] 1 (new_invoice_session ''a'' 0))
       = [''bogus'']
   \<and> ''line_item_confirm'' \<notin> set invoice_workflow_steps
   \<and> completed_steps (snd (wf_proceed_to_review (new_invoice_session ''a'' 0)))
       = [''line_item_confirm'']"
  by (simp add: confirm_step_def new_invoice_session_def invoice_initial_step_def
      invoice_advance_step_def advance_step_def invoice_workflow_steps_def Let_def
      mark_step_complete_def wf_proceed_to_review_def dict_get_def)

subsection \<open>Bearer token and cookie session\<close>

lemma extract_bearer_token_session [simp]:
  "extract_bearer_token (request\<lparr>cookie_session := c\<rparr>) = extract_bearer_token request"
  by (simp add: extract_bearer_token_def)

text \<open>
  C10. When the \<^verbatim>\<open>Authorization\<close> header carries a bearer token (it starts with
  "Bearer " and a non-empty token follows), both resolvers answer from the mobile session
  alone: \<^verbatim>\<open>None\<close> when the token does not validate, when its mobile session is unknown,
  or when that session lacks the credential, and the session's credential otherwise.
  The answer does not depend on the cookie session or on how cookie values verify, and
  the request is left as it was. The cookie session is read exactly when the header
  yields no token or an empty one.
\<close>

theorem bearer_token_never_falls_back:
  "(extract_bearer_token request = Some token \<and> token \<noteq> [] \<longrightarrow>
      (validate_token token = None \<longrightarrow>
         get_openai_api_key validate_token loads now mobile_sessions request
           = (VNone, mobile_sessions, request)
         \<and> get_xero_token validate_token loads now mobile_sessions request
           = (VNone, mobile_sessions, request))
      \<and> (validate_token token = Some payload
           \<and> map_of mobile_sessions (payload_session_id payload) = None \<longrightarrow>
         get_openai_api_key validate_token loads now mobile_sessions request
           = (VNone, mobile_sessions, request)
         \<and> get_xero_token validate_token loads now mobile_sessions request
           = (VNone, mobile_sessions, request))
      \<and> (validate_token token = Some payload
           \<and> map_of mobile_sessions (payload_session_id payload) = Some ms \<longrightarrow>
         fst (get_openai_api_key validate_token loads now mobile_sessions request)
           = (if openai_api_key ms = None \<or> openai_api_key ms = Some []
              then VNone else VStr (the (openai_api_key ms)))
         \<and> fst (get_xero_token validate_token loads now mobile_sessions request)
           = (if xero_token ms = None \<or> xero_token ms = Some []
              then VNone else VDict (the (xero_token ms))))
      \<and> snd (snd (get_openai_api_key validate_token loads now mobile_sessions request))
          = request
      \<and> snd (snd (get_xero_token validate_token loads now mobile_sessions request))
          = request
      \<and> fst (get_openai_api_key validate_token loads' now mobile_sessions
               (request\<lparr>cookie_session := cookie\<rparr>))
          = fst (get_openai_api_key validate_token loads now mobile_sessions request)
      \<and> fst (get_xero_token validate_token loads' now mobile_sessions
               (request\<lparr>cookie_session := cookie\<rparr>))
          = fst (get_xero_token validate_token loads now mobile_sessions request))
   \<and> (extract_bearer_token request = None \<or> extract_bearer_token request = Some [] \<longrightarrow>
        get_openai_api_key validate_token loads now mobile_sessions request
          = (fst (get_session_data loads request ''openai_api_key''), mobile_sessions,
             snd (get_session_data loads request ''openai_api_key''))
        \<and> get_xero_token validate_token loads now mobile_sessions request
          = (fst (get_session_data loads request ''xero_token''), mobile_sessions,
             snd (get_session_data loads request ''xero_token'')))"
proof (intro conjI impI)
  assume "extract_bearer_token request = None \<or> extract_bearer_token request = Some []"
  then show "get_openai_api_key validate_token loads now mobile_sessions request
          = (fst (get_session_data loads request ''openai_api_key''), mobile_sessions,
             snd (get_session_data loads request ''openai_api_key''))"
    by (auto simp: get_openai_api_key_def get_api_key_def split: prod.splits)
next
  assume "extract_bearer_token request = None \<or> extract_bearer_token request = Some []"
  then show "get_xero_token validate_token loads now mobile_sessions request
          = (fst (get_session_data loads request ''xero_token''), mobile_sessions,
             snd (get_session_data loads request ''xero_token''))"
    by (auto simp: get_xero_token_def split: prod.splits)
qed (auto simp: get_openai_api_key_def get_xero_token_def get_mobile_session_def neq_Nil_conv
      split: option.splits list.splits prod.splits)

theorem bearer_token_never_falls_back_witness:
  "extract_bearer_token
      \<lparr>headers = [(''authorization'', ''Bearer abc'')],
       cookie_session = [(''openai_api_key'', ''signed''), (''xero_token'', ''signed'')]\<rparr>
     = Some ''abc''
   \<and> get_openai_api_key (\<lambda>t. None) (\<lambda>d. Verified (VStr ''sk-web'')) 5 []
        \<lparr>headers = [(''authorization'', ''Bearer abc'')],
         cookie_session = [(''openai_api_key'', ''signed''), (''xero_token'', ''signed'')]\<rparr>
     = (VNone, [],
        \<lparr>headers = [(''authorization'', ''Bearer abc'')],
         cookie_session = [(''openai_api_key'', ''signed''), (''xero_token'', ''signed'')]\<rparr>)
   \<and> get_xero_token (\<lambda>t. None) (\<lambda>d. Verified (VStr ''sk-web'')) 5 []
        \<lparr>headers = [(''authorization'', ''Bearer abc'')],
         cookie_session = [(''openai_api_key'', ''signed''), (''xero_token'', ''signed'')]\<rparr>
     = (VNone, [],
        \<lparr>headers = [(''authorization'', ''Bearer abc'')],
         cookie_session = [(''openai_api_key'', ''signed''), (''xero_token'', ''signed'')]\<rparr>)
   \<and> fst (get_openai_api_key
          (\<lambda>t. Some \<lparr>payload_session_id = ''m1'', xero_connected = False, openai_valid = True,
                      payload_tenant_id = None, payload_exp = 9, payload_iat = 1\<rparr>)
          (\<lambda>d. Verified (VStr ''sk-web'')) 5
          [(''m1'', \<lparr>mobile_session_id = ''m1'', xero_token = None,
                     openai_api_key = Some ''sk-mobile'', tenant_id = None,
                     mobile_created_at = 1, last_accessed = 1\<rparr>)]
          \<lparr>headers = [(''authorization'', ''Bearer abc'')],
           cookie_session = [(''openai_api_key'', ''signed''), (''xero_token'', ''signed'')]\<rparr>)
     = VStr ''sk-mobile''
   \<and> fst (get_xero_token
          (\<lambda>t. Some \<lparr>payload_session_id = ''m1'', xero_connected = False, openai_valid = True,
                      payload_tenant_id = None, payload_exp = 9, payload_iat = 1\<rparr>)
          (\<lambda>d. Verified (VStr ''sk-web'')) 5
          [(''m1'', \<lparr>mobile_session_id = ''m1'', xero_token = None,
                     openai_api_key = Some ''sk-mobile'', tenant_id = None,
                     mobile_created_at = 1, last_accessed = 1\<rparr>)]
          \<lparr>headers = [(''authorization'', ''Bearer abc'')],
           cookie_session = [(''openai_api_key'', ''signed''), (''xero_token'', ''signed'')]\<rparr>)
     = VNone
   \<and> extract_bearer_token
        \<lparr>headers = [(''authorization'', ''Basic abc'')],
         cookie_session = [(''openai_api_key'', ''signed'')]\<rparr> = None
   \<and> get_openai_api_key (\<lambda>t. None) (\<lambda>d. Verified (VStr ''sk-web'')) 5 []
        \<lparr>headers = [(''authorization'', ''Basic abc'')],
         cookie_session = [(''openai_api_key'', ''signed'')]\<rparr>
     = (VStr ''sk-web'', [],
        \<lparr>headers = [(''authorization'', ''Basic abc'')],
         cookie_session = [(''openai_api_key'', ''signed'')]\<rparr>)"
  using bearer_token_never_falls_back
      [of "\<lparr>headers = [(''authorization'', ''Bearer abc'')],
            cookie_session = [(''openai_api_key'', ''signed''), (''xero_token'', ''signed'')]\<rparr>"
          "''abc''" "\<lambda>t. None" "\<lambda>d. Verified (VStr ''sk-web'')" 5 "[]"]
    bearer_token_never_falls_back
      [of "\<lparr>headers = [(''authorization'', ''Bearer abc'')],
            cookie_session = [(''openai_api_key'', ''signed''), (''xero_token'', ''signed'')]\<rparr>"
          "''abc''"
          "\<lambda>t. Some \<lparr>payload_session_id = ''m1'', xero_connected = False,
                      openai_valid = True, payload_tenant_id = None, payload_exp = 9,
                      payload_iat = 1\<rparr>"
          "\<lambda>d. Verified (VStr ''sk-web'')" 5
          "[(''m1'', \<lparr>mobile_session_id = ''m1'', xero_token = None,
                     openai_api_key = Some ''sk-mobile'', tenant_id = None,
                     mobile_created_at = 1, last_accessed = 1\<rparr>)]"
          "\<lparr>payload_session_id = ''m1'', xero_connected = False,
                      openai_valid = True, payload_tenant_id = None, payload_exp = 9,
                      payload_iat = 1\<rparr>"
          "\<lparr>mobile_session_id = ''m1'', xero_token = None,
                     openai_api_key = Some ''sk-mobile'', tenant_id = None,
                     mobile_created_at = 1, last_accessed = 1\<rparr>"]
    bearer_token_never_falls_back
      [of "\<lparr>headers = [(''authorization'', ''Basic abc'')],
            cookie_session = [(''openai_api_key'', ''signed'')]\<rparr>"
          "''x''" "\<lambda>t. None" "\<lambda>d. Verified (VStr ''sk-web'')" 5 "[]"]
  by (simp add: extract_bearer_token_def startswith_def get_session_data_def)

subsection \<open>Expiry of stored sessions\<close>





subsection \<open>Oversized audio\<close>

text \<open>
  C9. When the uploaded audio has more than 10 MiB (10485760 bytes), or declares a size
  above that, \<^verbatim>\<open>transcribe_audio\<close> and with it \<^verbatim>\<open>process_voice_step\<close> of either workflow
  fail with a \<^verbatim>\<open>StepValidationError\<close> whose field is "audio", and neither the
  transcription nor any other collaborator has been called. The message is the one of
  the enclosing handler ("Failed to transcribe audio ..."), not the one about the size.
  The step handlers answer VALIDATION\_ERROR with status 400 and leave the session, so
  its draft and its completed steps, as it was.
\<close>

theorem oversized_audio_rejected:
  assumes "length (content audio_file) > 10485760
           \<or> (\<exists>n. file_size audio_file = Some n \<and> n > 10485760)"
  shows "transcribe_audio whisper audio_file
           = (Inl (StepValidationError ''audio''
                ''Failed to transcribe audio. Please try speaking again.''), [])
         \<and> process_voice_step whisper parse audio_file step
           = (Inl (StepValidationError ''audio''
                ''Failed to transcribe audio. Please try speaking again.''), [])
         \<and> contact_process_voice_step whisper cparse audio_file cstep
           = (Inl (StepValidationError ''audio''
                ''Failed to transcribe audio. Please try speaking again.''), [])
         \<and> (truthy api_key \<longrightarrow>
              process_invoice_step whisper parse api_key step audio_file now s
                = ((Rejected ''VALIDATION_ERROR'' 400, s), [])
              \<and> process_contact_step whisper cparse api_key cstep audio_file now c
                = ((Rejected ''VALIDATION_ERROR'' 400, c), []))"
proof -
  have t: "transcribe_audio whisper audio_file
           = (Inl (StepValidationError ''audio''
                ''Failed to transcribe audio. Please try speaking again.''), [])"
    using assms
    by (auto simp: transcribe_audio_def MAX_AUDIO_SIZE_def Let_def split: option.splits)
  show ?thesis
    by (simp add: t process_voice_step_def contact_process_voice_step_def
        process_invoice_step_def process_contact_step_def)
qed

theorem oversized_audio_rejected_witness:
  "length (content \<lparr>file_size = None, content = replicate 10485761 (CHR ''a''),
                    filename = Some ''take1.webm''\<rparr>) > 10485760
   \<and> process_voice_step (\<lambda>name audio. Inr ''ten hours'') (\<lambda>step transcript. Inl TypeError)
        \<lparr>file_size = None, content = replicate 10485761 (CHR ''a''),
         filename = Some ''take1.webm''\<rparr> ''line_item''
     = (Inl (StepValidationError ''audio''
          ''Failed to transcribe audio. Please try speaking again.''), [])
   \<and> truthy (VStr ''sk-1'')
   \<and> process_invoice_step (\<lambda>name audio. Inr ''ten hours'') (\<lambda>step transcript. Inl TypeError)
        (VStr ''sk-1'') ''line_item''
        \<lparr>file_size = None, content = replicate 10485761 (CHR ''a''),
         filename = Some ''take1.webm''\<rparr> 7 (new_invoice_session ''a'' 0)
     = ((Rejected ''VALIDATION_ERROR'' 400, new_invoice_session ''a'' 0), [])
   \<and> file_size \<lparr>file_size = Some 10485761, content = ''abc'', filename = None\<rparr>
     = Some 10485761
   \<and> transcribe_audio (\<lambda>name audio. Inr ''ten hours'')
        \<lparr>file_size = Some 10485761, content = ''abc'', filename = None\<rparr>
     = (Inl (StepValidationError ''audio''
          ''Failed to transcribe audio. Please try speaking again.''), [])"
  using oversized_audio_rejected
      [where audio_file = "\<lparr>file_size = None, content = replicate 10485761 (CHR ''a''),
                            filename = Some ''take1.webm''\<rparr>"
         and whisper = "\<lambda>name audio. Inr ''ten hours''"
         and parse = "\<lambda>step transcript. Inl TypeError" and step = "''line_item''"
         and api_key = "VStr ''sk-1''" and now = 7 and s = "new_invoice_session ''a'' 0"]
    oversized_audio_rejected
      [where audio_file = "\<lparr>file_size = Some 10485761, content = ''abc'', filename = None\<rparr>"
         and whisper = "\<lambda>name audio. Inr ''ten hours''"]
  by simp

subsection \<open>The pending line item away from the line-item step\<close>

text \<open>
  C8. The pending flag and the pending item are not tied to the current step.
  \<^verbatim>\<open>reset\<close> puts the session back to "welcome" and empties the pending item, but leaves
  \<^verbatim>\<open>has_pending_item\<close> as it is: after a line item is parsed and the workflow is reset,
  the flag is set although the current step is "welcome" and no item is pending, so flag
  and item no longer agree either. Navigation does not look at the pending item: after
  a parse at "line\_item" and a step back to "contact\_name", the item is pending and the
  flag is set while the current step is "contact\_name".
\<close>

theorem pending_flag_survives_reset:
  "current_step reset_before_decision = ''welcome''
   \<and> has_pending_item reset_before_decision
   \<and> dict_get (invoice_data reset_before_decision) ''current_line_item'' = VNone
   \<and> reset_before_decision = (new_invoice_session ''a'' 0)\<lparr>updated_at := 2, has_pending_item := True\<rparr>
   \<and> current_step back_before_decision = ''contact_name''
   \<and> has_pending_item back_before_decision
   \<and> dict_get (invoice_data back_before_decision) ''current_line_item''
       = VDict [(''description'', VStr ''Consulting''), (''quantity'', VNum 10),
                (''unit_price'', VNum 150), (''account_code'', VStr ''200''),
                (''vat_rate'', VStr ''standard'')]"
  by (simp add: reset_before_decision_def back_before_decision_def confirm_step_def
      new_invoice_session_def invoice_initial_step_def invoice_advance_step_def advance_step_def
      start_invoice_workflow_def reset_workflow_def reset_def go_to_step_route_def
      invoice_workflow_steps_def process_invoice_step_ok_def invoice_store_step_result_def
      mark_step_complete_def Let_def dict_update_def dict_get_def)

end
